theory Spec2Isabelle
  imports Main
begin

section \<open>Order status state machine (orders/domain/value\_objects.py)\<close>

text \<open>
  \<^verbatim>\<open>class OrderStatus(str, Enum)\<close>: six members, each with its string value.
\<close>

datatype OrderStatus = PENDING | CONFIRMED | SEPARATED | SHIPPED | DELIVERED | CANCELLED

fun OrderStatus_value :: "OrderStatus \<Rightarrow> string" where
  "OrderStatus_value PENDING = ''pending''"
| "OrderStatus_value CONFIRMED = ''confirmed''"
| "OrderStatus_value SEPARATED = ''separated''"
| "OrderStatus_value SHIPPED = ''shipped''"
| "OrderStatus_value DELIVERED = ''delivered''"
| "OrderStatus_value CANCELLED = ''cancelled''"

text \<open>\<^verbatim>\<open>OrderStatus(value)\<close>: lookup by value; \<open>None\<close> stands for the ValueError.\<close>

definition OrderStatus_of_value :: "string \<Rightarrow> OrderStatus option" where
  "OrderStatus_of_value v =
     (if v = ''pending'' then Some PENDING
      else if v = ''confirmed'' then Some CONFIRMED
      else if v = ''separated'' then Some SEPARATED
      else if v = ''shipped'' then Some SHIPPED
      else if v = ''delivered'' then Some DELIVERED
      else if v = ''cancelled'' then Some CANCELLED
      else None)"

text \<open>\<^verbatim>\<open>OrderStatus.valid_transitions()\<close>: the dict, as a function of its key.\<close>

fun valid_transitions :: "OrderStatus \<Rightarrow> OrderStatus list" where
  "valid_transitions PENDING = [CONFIRMED, CANCELLED]"
| "valid_transitions CONFIRMED = [SEPARATED, CANCELLED]"
| "valid_transitions SEPARATED = [SHIPPED]"
| "valid_transitions SHIPPED = [DELIVERED]"
| "valid_transitions DELIVERED = []"
| "valid_transitions CANCELLED = []"

text \<open>\<^verbatim>\<open>return new_status in self.valid_transitions().get(self, [])\<close>\<close>

definition can_transition_to :: "OrderStatus \<Rightarrow> OrderStatus \<Rightarrow> bool" where
  "can_transition_to self new_status \<longleftrightarrow> new_status \<in> set (valid_transitions self)"

section \<open>Domain exceptions (shared/exceptions/domain\_exceptions.py)\<close>

text \<open>
  The messages are Portuguese format strings; each is kept as a constructor carrying the
  values the format string interpolates. \<open>validation_error\<close> are the entries of the
  list \<^verbatim>\<open>OrderEntity.validate\<close> returns.
\<close>

datatype validation_error =
    CustomerRequired
  | ItemsRequired
  | InvalidQuantity string
  | InvalidPrice string

datatype message =
    CustomerInactive
  | NoItems
  | ProductInactive string
  | Joined "validation_error list"

text \<open>
  The exceptions the modelled code can raise. \<open>InsufficientStockException\<close> and
  \<open>InvalidStateTransitionException\<close> are subclasses of \<open>BusinessRuleViolation\<close>;
  \<open>TypeError\<close> (carrying the unexpected keyword), \<open>ValueError\<close>, \<open>KeyError\<close> and
  \<open>AttributeError\<close> are Python's own.
\<close>

datatype error =
    EntityNotFoundException string int
  | BusinessRuleViolation message
  | InsufficientStockException string int int
  | InvalidStateTransitionException string string
  | TypeError string
  | ValueError
  | KeyError int
  | AttributeError

text \<open>
  The \<^verbatim>\<open>code\<close> attribute each domain exception sets; for the others, the code the
  exception handler reports (shared/exceptions/handlers.py).
\<close>

fun code :: "error \<Rightarrow> string" where
  "code (EntityNotFoundException entity entity_id) = ''not_found''"
| "code (BusinessRuleViolation m) = ''business_rule_violation''"
| "code (InsufficientStockException product_sku requested available) = ''insufficient_stock''"
| "code (InvalidStateTransitionException current_status target_status) = ''invalid_state_transition''"
| "code (TypeError k) = ''internal_error''"
| "code ValueError = ''internal_error''"
| "code (KeyError k) = ''internal_error''"
| "code AttributeError = ''internal_error''"

section \<open>Product entity (products/domain/entities.py)\<close>

text \<open>
  Money is \<^verbatim>\<open>Decimal\<close> with two places; it is kept as an integer number of
  hundredths, on which Decimal's product with an int and its sum are exact. The
  description and the two timestamps of the entities are read by no operation below and
  are left out; \<open>deleted_at\<close> is a clock reading.
\<close>

record ProductEntity =
  p_id :: int
  p_sku :: string
  p_name :: string
  p_price :: int
  p_stock_quantity :: int
  p_is_active :: bool
  p_deleted_at :: "nat option"

definition has_sufficient_stock :: "ProductEntity \<Rightarrow> int \<Rightarrow> bool" where
  "has_sufficient_stock self quantity \<longleftrightarrow> p_stock_quantity self \<ge> quantity"

definition deduct_stock :: "ProductEntity \<Rightarrow> int \<Rightarrow> error + ProductEntity" where
  "deduct_stock self quantity =
     (if \<not> has_sufficient_stock self quantity then Inl ValueError
      else Inr (self\<lparr>p_stock_quantity := p_stock_quantity self - quantity\<rparr>))"

definition restore_stock :: "ProductEntity \<Rightarrow> int \<Rightarrow> ProductEntity" where
  "restore_stock self quantity = self\<lparr>p_stock_quantity := p_stock_quantity self + quantity\<rparr>"

section \<open>Customer entity (customers/domain/entities.py)\<close>

record CustomerEntity =
  c_id :: int
  c_name :: string
  c_is_active :: bool
  c_deleted_at :: "nat option"

section \<open>Order entities (orders/domain/entities.py)\<close>

record OrderItemEntity =
  i_id :: "int option"
  i_order_id :: "int option"
  i_product_id :: int
  i_product_sku :: string
  i_product_name :: string
  i_quantity :: int
  i_unit_price :: int

definition subtotal :: "OrderItemEntity \<Rightarrow> int" where
  "subtotal self = i_unit_price self * i_quantity self"

record OrderEntity =
  o_id :: "int option"
  o_customer_id :: int
  o_customer_name :: string
  o_status :: OrderStatus
  o_items :: "OrderItemEntity list"
  o_notes :: string
  o_deleted_at :: "nat option"

text \<open>The fields the dataclass \<^verbatim>\<open>OrderEntity\<close> declares, in order.\<close>

definition OrderEntity_fields :: "string list" where
  "OrderEntity_fields =
     [''id'', ''customer_id'', ''customer_name'', ''status'', ''items'', ''notes'',
      ''created_at'', ''updated_at'', ''deleted_at'']"

text \<open>
  The \<^verbatim>\<open>__init__\<close> a dataclass generates takes its fields as keywords (all have
  defaults) and raises TypeError on the first keyword that is not a field. \<open>keywords\<close>
  are the keywords of the call, \<open>self\<close> the object the accepted ones build.
\<close>

definition OrderEntity_init :: "string list \<Rightarrow> OrderEntity \<Rightarrow> error + OrderEntity" where
  "OrderEntity_init keywords self =
     (case filter (\<lambda>k. k \<notin> set OrderEntity_fields) keywords of
        [] \<Rightarrow> Inr self
      | k # _ \<Rightarrow> Inl (TypeError k))"

text \<open>
  \<^verbatim>\<open>sum(item.subtotal for item in self.items) if self.items else Decimal("0.00")\<close>
\<close>

definition total :: "OrderEntity \<Rightarrow> int" where
  "total self = (if o_items self \<noteq> [] then sum_list (map subtotal (o_items self)) else 0)"

definition transition_to :: "OrderEntity \<Rightarrow> OrderStatus \<Rightarrow> error + OrderEntity" where
  "transition_to self new_status =
     (if \<not> can_transition_to (o_status self) new_status
      then Inl (InvalidStateTransitionException
                  (OrderStatus_value (o_status self)) (OrderStatus_value new_status))
      else Inr (self\<lparr>o_status := new_status\<rparr>))"

fun validate_item :: "OrderItemEntity \<Rightarrow> validation_error list" where
  "validate_item item =
     (if i_quantity item \<le> 0 then [InvalidQuantity (i_product_sku item)] else []) @
     (if i_unit_price item \<le> 0 then [InvalidPrice (i_product_sku item)] else [])"

definition validate :: "OrderEntity \<Rightarrow> validation_error list" where
  "validate self =
     (if o_customer_id self = 0 then [CustomerRequired] else []) @
     (if o_items self = [] then [ItemsRequired] else []) @
     concat (map validate_item (o_items self))"

section \<open>The database\<close>

text \<open>
  The tables the Django models declare (products/models.py, customers/models.py,
  orders/models.py). A table with an integer primary key is a map from the key to the
  row; the order items and the history are lists of rows in insertion order, each row
  holding the key of its order. The columns kept are the ones the entities above keep.
\<close>

record Product =
  sku :: string
  name :: string
  price :: int
  stock_quantity :: int
  is_active :: bool
  deleted_at :: "nat option"

record Customer =
  customer_name :: string
  customer_is_active :: bool
  customer_deleted_at :: "nat option"

record Order =
  order_number :: string
  order_customer :: int
  order_status :: string
  order_notes :: string
  order_deleted_at :: "nat option"

record OrderItem =
  item_id :: int
  item_order :: int
  item_product :: int
  item_product_sku :: string
  item_product_name :: string
  item_quantity :: int
  item_unit_price :: int

record OrderHistory =
  history_order :: int
  from_status :: string
  to_status :: string
  changed_by :: string
  history_notes :: string

text \<open>
  \<open>order_seq\<close> is the last key the orders table gave out. A transaction that rolls back
  restores the whole record, the counter included.
\<close>

record db =
  customers :: "int \<rightharpoonup> Customer"
  products :: "int \<rightharpoonup> Product"
  orders :: "int \<rightharpoonup> Order"
  order_seq :: int
  order_items :: "OrderItem list"
  order_history :: "OrderHistory list"

text \<open>
  \<^verbatim>\<open>with transaction.atomic():\<close> the block's writes are kept when it returns and
  undone when it raises.
\<close>

definition atomic :: "(db \<Rightarrow> (error + 'a) \<times> db) \<Rightarrow> db \<Rightarrow> (error + 'a) \<times> db" where
  "atomic block d =
     (case block d of
        (Inl e, d') \<Rightarrow> (Inl e, d)
      | (Inr v, d') \<Rightarrow> (Inr v, d'))"

section \<open>Product repository (products/repositories/product\_repository.py)\<close>

definition ProductRepository_to_entity :: "int \<Rightarrow> Product \<Rightarrow> ProductEntity" where
  "ProductRepository_to_entity pid model =
     \<lparr>p_id = pid, p_sku = sku model, p_name = name model, p_price = price model,
      p_stock_quantity = stock_quantity model, p_is_active = is_active model,
      p_deleted_at = deleted_at model\<rparr>"

text \<open>
  \<^verbatim>\<open>self._get_active_queryset().filter(id__in=product_ids)\<close> read off a list of
  keys: the rows of these keys that exist and have \<open>deleted_at\<close> null.
\<close>

fun active_rows :: "(int \<rightharpoonup> Product) \<Rightarrow> int list \<Rightarrow> ProductEntity list" where
  "active_rows tbl [] = []"
| "active_rows tbl (pid # pids) =
     (case tbl pid of
        None \<Rightarrow> active_rows tbl pids
      | Some model \<Rightarrow>
          if deleted_at model = None
          then ProductRepository_to_entity pid model # active_rows tbl pids
          else active_rows tbl pids)"

text \<open>
  \<^verbatim>\<open>get_by_ids_for_update\<close>: the query has \<^verbatim>\<open>.order_by("id")\<close>, and a key
  selects at most one row, so the rows come in the order of the distinct requested keys,
  ascending. The row locks \<^verbatim>\<open>select_for_update()\<close> takes have no effect on a
  single caller.
\<close>

definition get_by_ids_for_update :: "int list \<Rightarrow> db \<Rightarrow> ProductEntity list" where
  "get_by_ids_for_update product_ids d = active_rows (products d) (sort (remdups product_ids))"

text \<open>
  \<^verbatim>\<open>update_stock\<close>: the filtered \<^verbatim>\<open>update\<close> writes the row when it exists
  and is not soft-deleted, and says whether it wrote one.
\<close>

definition update_stock :: "int \<Rightarrow> int \<Rightarrow> db \<Rightarrow> bool \<times> db" where
  "update_stock product_id new_quantity d =
     (case products d product_id of
        None \<Rightarrow> (False, d)
      | Some model \<Rightarrow>
          if deleted_at model = None
          then (True, d\<lparr>products := (products d)
                        (product_id \<mapsto> model\<lparr>stock_quantity := new_quantity\<rparr>)\<rparr>)
          else (False, d))"

section \<open>Customer repository (customers/repositories/customer\_repository.py)\<close>

definition CustomerRepository_get_by_id :: "int \<Rightarrow> db \<Rightarrow> CustomerEntity option" where
  "CustomerRepository_get_by_id cid d =
     (case customers d cid of
        None \<Rightarrow> None
      | Some model \<Rightarrow>
          if customer_deleted_at model = None
          then Some \<lparr>c_id = cid, c_name = customer_name model,
                     c_is_active = customer_is_active model,
                     c_deleted_at = customer_deleted_at model\<rparr>
          else None)"

section \<open>Order repository (orders/repositories/order\_repository.py)\<close>

definition item_to_entity :: "OrderItem \<Rightarrow> OrderItemEntity" where
  "item_to_entity item =
     \<lparr>i_id = Some (item_id item), i_order_id = Some (item_order item),
      i_product_id = item_product item, i_product_sku = item_product_sku item,
      i_product_name = item_product_name item, i_quantity = item_quantity item,
      i_unit_price = item_unit_price item\<rparr>"

text \<open>The keywords \<^verbatim>\<open>_to_entity\<close> passes to \<^verbatim>\<open>OrderEntity(...)\<close>, in order.\<close>

definition to_entity_keywords :: "string list" where
  "to_entity_keywords =
     [''id'', ''order_number'', ''customer_id'', ''customer_name'', ''status'', ''items'',
      ''notes'', ''created_at'', ''updated_at'', ''deleted_at'']"

text \<open>
  \<^verbatim>\<open>_to_entity\<close>, for the row \<open>model\<close> of key \<open>oid\<close> joined with its customer row
  \<open>customer\<close>. The arguments are evaluated first (\<^verbatim>\<open>OrderStatus(model.status)\<close>
  raises ValueError on a string that is no status), then the constructor is called.
\<close>

definition OrderRepository_to_entity ::
  "int \<Rightarrow> Order \<Rightarrow> Customer \<Rightarrow> db \<Rightarrow> error + OrderEntity" where
  "OrderRepository_to_entity oid model customer d =
     (let items = map item_to_entity (filter (\<lambda>item. item_order item = oid) (order_items d))
      in case OrderStatus_of_value (order_status model) of
           None \<Rightarrow> Inl ValueError
         | Some status \<Rightarrow>
             OrderEntity_init to_entity_keywords
               \<lparr>o_id = Some oid, o_customer_id = order_customer model,
                o_customer_name = customer_name customer, o_status = status,
                o_items = items, o_notes = order_notes model,
                o_deleted_at = order_deleted_at model\<rparr>)"

text \<open>
  \<^verbatim>\<open>get_by_id\<close>: the active queryset with \<^verbatim>\<open>select_related("customer")\<close>, an
  inner join; \<open>Inr None\<close> is the \<^verbatim>\<open>None\<close> returned on \<^verbatim>\<open>DoesNotExist\<close>.
\<close>

definition OrderRepository_get_by_id :: "int \<Rightarrow> db \<Rightarrow> error + OrderEntity option" where
  "OrderRepository_get_by_id order_id d =
     (case orders d order_id of
        None \<Rightarrow> Inr None
      | Some model \<Rightarrow>
          if order_deleted_at model \<noteq> None then Inr None
          else (case customers d (order_customer model) of
                  None \<Rightarrow> Inr None
                | Some customer \<Rightarrow>
                    map_sum id Some (OrderRepository_to_entity order_id model customer d)))"

text \<open>
  The loop of \<^verbatim>\<open>create\<close> over \<^verbatim>\<open>entity.items\<close>: one
  \<^verbatim>\<open>OrderItem.objects.create\<close> each; a new row's key is one more than the number
  of rows (rows are never deleted).
\<close>

fun create_items :: "int \<Rightarrow> OrderItemEntity list \<Rightarrow> OrderItem list \<Rightarrow> OrderItem list" where
  "create_items oid [] tbl = tbl"
| "create_items oid (item # items) tbl =
     create_items oid items
       (tbl @ [\<lparr>item_id = int (length tbl) + 1, item_order = oid,
                item_product = i_product_id item, item_product_sku = i_product_sku item,
                item_product_name = i_product_name item, item_quantity = i_quantity item,
                item_unit_price = i_unit_price item\<rparr>])"

text \<open>
  \<^verbatim>\<open>create\<close>. \<open>number\<close> is the order number \<^verbatim>\<open>Order.save\<close> generates from a
  fresh UUID for this row.
\<close>

definition OrderRepository_create ::
  "string \<Rightarrow> OrderEntity \<Rightarrow> db \<Rightarrow> (error + OrderEntity option) \<times> db" where
  "OrderRepository_create number entity d =
     (let oid = order_seq d + 1;
          order_model = \<lparr>order_number = number, order_customer = o_customer_id entity,
                         order_status = OrderStatus_value (o_status entity),
                         order_notes = o_notes entity, order_deleted_at = None\<rparr>;
          d1 = d\<lparr>orders := (orders d)(oid \<mapsto> order_model), order_seq := oid\<rparr>;
          d2 = d1\<lparr>order_items := create_items oid (o_items entity) (order_items d1)\<rparr>;
          d3 = d2\<lparr>order_history := order_history d2 @
                  [\<lparr>history_order = oid, from_status = [],
                    to_status = OrderStatus_value PENDING, changed_by = ''system'',
                    history_notes = ''Pedido criado.''\<rparr>]\<rparr>
      in (OrderRepository_get_by_id oid d3, d3))"

text \<open>
  \<^verbatim>\<open>update_status\<close> (with \<^verbatim>\<open>changed_by\<close> at its default): it reads the row
  whatever its customer, writes the status and appends one history row.
\<close>

definition OrderRepository_update_status :: "int \<Rightarrow> string \<Rightarrow> string \<Rightarrow> db \<Rightarrow> bool \<times> db" where
  "OrderRepository_update_status order_id new_status notes d =
     (case orders d order_id of
        None \<Rightarrow> (False, d)
      | Some order \<Rightarrow>
          if order_deleted_at order \<noteq> None then (False, d)
          else
            (True,
             d\<lparr>orders := (orders d)(order_id \<mapsto> order\<lparr>order_status := new_status\<rparr>),
               order_history := order_history d @
                 [\<lparr>history_order = order_id, from_status = order_status order,
                   to_status = new_status, changed_by = ''system'',
                   history_notes = notes\<rparr>]\<rparr>))"

section \<open>Order service (orders/services/order\_service.py)\<close>

text \<open>The request: \<^verbatim>\<open>data["customer_id"]\<close>, \<^verbatim>\<open>data["items"]\<close>, \<^verbatim>\<open>data.get("notes", "")\<close>.\<close>

record item_data =
  product_id :: int
  quantity :: int

record order_data =
  customer_id :: int
  items :: "item_data list"
  data_notes :: string

text \<open>\<^verbatim>\<open>product_map = {p.id: p for p in locked_products}\<close>\<close>

definition product_map_of :: "ProductEntity list \<Rightarrow> (int \<rightharpoonup> ProductEntity)" where
  "product_map_of locked_products = fold (\<lambda>p m. m(p_id p \<mapsto> p)) locked_products Map.empty"

text \<open>
  The first loop of \<^verbatim>\<open>create_order\<close> ("verificar se todos os produtos existem"):
  the exception of the first item whose product is not in the map, if any.
\<close>

fun check_products_exist :: "(int \<rightharpoonup> ProductEntity) \<Rightarrow> item_data list \<Rightarrow> error option" where
  "check_products_exist pm [] = None"
| "check_products_exist pm (it # its) =
     (if pm (product_id it) = None
      then Some (EntityNotFoundException ''Produto'' (product_id it))
      else check_products_exist pm its)"

text \<open>
  \<^verbatim>\<open>OrderItemEntity(product_id=product.id, product_sku=product.sku, ...)\<close>: the
  snapshot of the product an order item keeps.
\<close>

definition new_order_item :: "ProductEntity \<Rightarrow> int \<Rightarrow> OrderItemEntity" where
  "new_order_item product qty =
     \<lparr>i_id = None, i_order_id = None, i_product_id = p_id product,
      i_product_sku = p_sku product, i_product_name = p_name product,
      i_quantity = qty, i_unit_price = p_price product\<rparr>"

text \<open>
  The second loop ("verificar e deduzir estoque"). The entities in the map are mutable
  objects: \<^verbatim>\<open>deduct_stock\<close> changes the one the map holds, so a later item of the
  same product sees the stock the earlier ones left. Each deduction is written with
  \<^verbatim>\<open>update_stock\<close> as it is made. \<^verbatim>\<open>product_map[...]\<close> raises KeyError on a
  missing key.
\<close>

fun reserve_items ::
  "(int \<rightharpoonup> ProductEntity) \<Rightarrow> item_data list \<Rightarrow> db \<Rightarrow> (error + OrderItemEntity list) \<times> db" where
  "reserve_items pm [] d = (Inr [], d)"
| "reserve_items pm (it # its) d =
     (case pm (product_id it) of
        None \<Rightarrow> (Inl (KeyError (product_id it)), d)
      | Some product \<Rightarrow>
          if \<not> p_is_active product
          then (Inl (BusinessRuleViolation (ProductInactive (p_sku product))), d)
          else if \<not> has_sufficient_stock product (quantity it)
          then (Inl (InsufficientStockException (p_sku product) (quantity it)
                       (p_stock_quantity product)), d)
          else
            (case deduct_stock product (quantity it) of
               Inl e \<Rightarrow> (Inl e, d)
             | Inr product' \<Rightarrow>
                 (let d' = snd (update_stock (p_id product') (p_stock_quantity product') d);
                      order_item = new_order_item product' (quantity it)
                  in case reserve_items (pm(product_id it \<mapsto> product')) its d' of
                       (Inl e, d'') \<Rightarrow> (Inl e, d'')
                     | (Inr rest, d'') \<Rightarrow> (Inr (order_item # rest), d''))))"

text \<open>
  The transaction block of \<^verbatim>\<open>create_order\<close> up to the validated entity: lock,
  check, deduct, build, validate. It returns the database as the block has written it
  so far, also when it raises.
\<close>

definition create_order_prepare ::
  "CustomerEntity \<Rightarrow> order_data \<Rightarrow> db \<Rightarrow> (error + OrderEntity) \<times> db" where
  "create_order_prepare customer data d =
     (let product_ids = map product_id (items data);
          locked_products = get_by_ids_for_update product_ids d;
          product_map = product_map_of locked_products
      in case check_products_exist product_map (items data) of
           Some e \<Rightarrow> (Inl e, d)
         | None \<Rightarrow>
             (case reserve_items product_map (items data) d of
                (Inl e, d') \<Rightarrow> (Inl e, d')
              | (Inr item_entities, d') \<Rightarrow>
                  (case OrderEntity_init
                          [''customer_id'', ''customer_name'', ''status'', ''items'', ''notes'']
                          \<lparr>o_id = None, o_customer_id = customer_id data,
                           o_customer_name = c_name customer, o_status = PENDING,
                           o_items = item_entities, o_notes = data_notes data,
                           o_deleted_at = None\<rparr> of
                     Inl e \<Rightarrow> (Inl e, d')
                   | Inr order_entity \<Rightarrow>
                       (case validate order_entity of
                          [] \<Rightarrow> (Inr order_entity, d')
                        | errors \<Rightarrow> (Inl (BusinessRuleViolation (Joined errors)), d')))))"

text \<open>The whole block: the prepared entity goes to the repository.\<close>

definition create_order_block ::
  "string \<Rightarrow> CustomerEntity \<Rightarrow> order_data \<Rightarrow> db \<Rightarrow> (error + OrderEntity option) \<times> db" where
  "create_order_block number customer data d =
     (case create_order_prepare customer data d of
        (Inl e, d') \<Rightarrow> (Inl e, d')
      | (Inr order_entity, d') \<Rightarrow> OrderRepository_create number order_entity d')"

text \<open>
  \<^verbatim>\<open>create_order\<close>. After the block, the log line and the event read
  \<^verbatim>\<open>order.id\<close> (AttributeError on \<^verbatim>\<open>None\<close>); the event bus has no handler
  registered, so publishing does nothing.
\<close>

definition create_order :: "string \<Rightarrow> order_data \<Rightarrow> db \<Rightarrow> (error + OrderEntity) \<times> db" where
  "create_order number data d =
     (case CustomerRepository_get_by_id (customer_id data) d of
        None \<Rightarrow> (Inl (EntityNotFoundException ''Cliente'' (customer_id data)), d)
      | Some customer \<Rightarrow>
          if \<not> c_is_active customer then (Inl (BusinessRuleViolation CustomerInactive), d)
          else if items data = [] then (Inl (BusinessRuleViolation NoItems), d)
          else
            (case atomic (create_order_block number customer data) d of
               (Inl e, d') \<Rightarrow> (Inl e, d')
             | (Inr None, d') \<Rightarrow> (Inl AttributeError, d')
             | (Inr (Some order), d') \<Rightarrow> (Inr order, d')))"

definition get_order :: "int \<Rightarrow> db \<Rightarrow> error + OrderEntity" where
  "get_order order_id d =
     (case OrderRepository_get_by_id order_id d of
        Inl e \<Rightarrow> Inl e
      | Inr None \<Rightarrow> Inl (EntityNotFoundException ''Pedido'' order_id)
      | Inr (Some order) \<Rightarrow> Inr order)"

text \<open>
  The loop of \<^verbatim>\<open>cancel_order\<close>: an item whose product is not among the locked
  rows is skipped.
\<close>

fun restore_items :: "(int \<rightharpoonup> ProductEntity) \<Rightarrow> OrderItemEntity list \<Rightarrow> db \<Rightarrow> db" where
  "restore_items pm [] d = d"
| "restore_items pm (item # its) d =
     (case pm (i_product_id item) of
        None \<Rightarrow> restore_items pm its d
      | Some product \<Rightarrow>
          (let product' = restore_stock product (i_quantity item);
               d' = snd (update_stock (p_id product') (p_stock_quantity product') d)
           in restore_items (pm(i_product_id item \<mapsto> product')) its d'))"

definition cancel_order_block :: "OrderEntity \<Rightarrow> int \<Rightarrow> string \<Rightarrow> db \<Rightarrow> (error + unit) \<times> db" where
  "cancel_order_block order order_id reason d =
     (let product_ids = map i_product_id (o_items order);
          locked_products = get_by_ids_for_update product_ids d;
          product_map = product_map_of locked_products;
          d' = restore_items product_map (o_items order) d;
          d'' = snd (OrderRepository_update_status order_id (OrderStatus_value CANCELLED)
                       (if reason \<noteq> [] then reason else ''Pedido cancelado.'') d')
      in (Inr (), d''))"

definition cancel_order :: "int \<Rightarrow> string \<Rightarrow> db \<Rightarrow> (error + OrderEntity) \<times> db" where
  "cancel_order order_id reason d =
     (case get_order order_id d of
        Inl e \<Rightarrow> (Inl e, d)
      | Inr order \<Rightarrow>
          (case transition_to order CANCELLED of
             Inl e \<Rightarrow> (Inl e, d)
           | Inr order' \<Rightarrow>
               (case atomic (cancel_order_block order' order_id reason) d of
                  (Inl e, d') \<Rightarrow> (Inl e, d')
                | (Inr u, d') \<Rightarrow> (get_order order_id d', d'))))"

section \<open>Idempotency middleware (shared/middleware/idempotency.py)\<close>

text \<open>
  A request, as far as the middleware reads it: the method, the path and
  \<^verbatim>\<open>request.headers.get("Idempotency-Key")\<close>. A response is its status code and its
  body; \<open>'j\<close> is the type of decoded JSON values.
\<close>

record request =
  http_method :: string
  path :: string
  idempotency_key :: "string option"

record response =
  status_code :: int
  content :: string

text \<open>What the middleware stores: \<^verbatim>\<open>{"data": response_data, "status": response.status_code}\<close>.\<close>

record 'j cached =
  cached_data :: 'j
  cached_status :: int

text \<open>
  Django's cache, as far as it is used: a key holds a value and the time it expires at;
  \<^verbatim>\<open>cache.get\<close> at time \<open>now\<close> gives \<^verbatim>\<open>None\<close> for a key that is absent or
  has expired, \<^verbatim>\<open>cache.set\<close> stores the value until \<open>now + timeout\<close>. Times are
  in seconds.
\<close>

type_synonym 'j cache = "string \<rightharpoonup> ('j cached \<times> int)"

definition cache_get :: "int \<Rightarrow> 'j cache \<Rightarrow> string \<Rightarrow> 'j cached option" where
  "cache_get now c k =
     (case c k of
        None \<Rightarrow> None
      | Some (v, expires) \<Rightarrow> if now < expires then Some v else None)"

definition cache_set :: "int \<Rightarrow> 'j cache \<Rightarrow> string \<Rightarrow> 'j cached \<Rightarrow> int \<Rightarrow> 'j cache" where
  "cache_set now c k v timeout = c(k \<mapsto> (v, now + timeout))"

definition IDEMPOTENCY_KEY_TTL :: int where
  "IDEMPOTENCY_KEY_TTL = 60 * 60 * 24"

text \<open>
  What \<^verbatim>\<open>json.loads(response.content)\<close> does inside the middleware's
  \<^verbatim>\<open>try\<close>: it returns the decoded value; or it raises JSONDecodeError (or reading
  \<^verbatim>\<open>content\<close> raises AttributeError), which the \<^verbatim>\<open>except\<close> clause catches;
  or it raises another exception, named here, which the clause does not catch
  (UnicodeDecodeError on a body that is not UTF-8, for one).
\<close>

datatype 'j json_result = Loaded 'j | JSONDecodeError | Unhandled string

text \<open>
  \<^verbatim>\<open>IdempotencyMiddleware.__call__\<close>. \<open>get_response\<close> is the wrapped operation,
  run on the application state \<open>'w\<close>; \<open>loads\<close> is \<^verbatim>\<open>json.loads\<close> on the body,
  and \<open>dumps\<close> the encoding \<^verbatim>\<open>JsonResponse\<close> gives its data. \<open>t_get\<close> and
  \<open>t_set\<close> are the clock when the cache is read and when it is written. The result
  is the response the middleware returns (\<open>Inr\<close>) or the name of the exception that
  leaves it (\<open>Inl\<close>), the cache and the application state.
\<close>

definition IdempotencyMiddleware_call ::
  "(request \<Rightarrow> 'w \<Rightarrow> response \<times> 'w) \<Rightarrow> (string \<Rightarrow> 'j json_result) \<Rightarrow> ('j \<Rightarrow> string) \<Rightarrow>
   int \<Rightarrow> int \<Rightarrow> request \<Rightarrow> 'j cache \<times> 'w \<Rightarrow> (string + response) \<times> 'j cache \<times> 'w" where
  "IdempotencyMiddleware_call get_response loads dumps t_get t_set req st =
     (let (c, w) = st in
      if http_method req \<noteq> ''POST''
      then (let (resp, w') = get_response req w in (Inr resp, c, w'))
      else
        (case idempotency_key req of
           None \<Rightarrow> (let (resp, w') = get_response req w in (Inr resp, c, w'))
         | Some k \<Rightarrow>
             if k = [] then (let (resp, w') = get_response req w in (Inr resp, c, w'))
             else
               (let cache_key = ''idempotency:'' @ k in
                case cache_get t_get c cache_key of
                  Some cached_response \<Rightarrow>
                    (Inr \<lparr>status_code = cached_status cached_response,
                          content = dumps (cached_data cached_response)\<rparr>, c, w)
                | None \<Rightarrow>
                    (let (resp, w') = get_response req w in
                     if 200 \<le> status_code resp \<and> status_code resp < 300
                     then
                       (case loads (content resp) of
                          Loaded response_data \<Rightarrow>
                            (Inr resp,
                             cache_set t_set c cache_key
                               \<lparr>cached_data = response_data,
                                cached_status = status_code resp\<rparr>
                               IDEMPOTENCY_KEY_TTL,
                             w')
                        | JSONDecodeError \<Rightarrow> (Inr resp, c, w')
                        | Unhandled exn \<Rightarrow> (Inl exn, c, w'))
                     else (Inr resp, c, w')))))"

section \<open>Notions the properties are stated with\<close>

definition is_live :: "db \<Rightarrow> int \<Rightarrow> bool" where
  "is_live d pid = (case products d pid of None \<Rightarrow> False | Some model \<Rightarrow> deleted_at model = None)"

definition requested :: "item_data list \<Rightarrow> int \<Rightarrow> int" where
  "requested its pid = sum_list (map quantity (filter (\<lambda>it. product_id it = pid) its))"

text \<open>The second loop gets through a list when each item, in turn, finds its product
  active and with stock for what the items before it and itself ask of that product.\<close>

definition passes :: "(int \<rightharpoonup> ProductEntity) \<Rightarrow> item_data list \<Rightarrow> bool" where
  "passes pm its \<longleftrightarrow>
     (\<forall>k<length its. \<exists>p. pm (product_id (its ! k)) = Some p \<and> p_is_active p \<and>
        requested (take k its) (product_id (its ! k)) + quantity (its ! k) \<le> p_stock_quantity p)"

text \<open>The map of locked entities agrees with the table.\<close>

definition agrees :: "(int \<rightharpoonup> ProductEntity) \<Rightarrow> db \<Rightarrow> bool" where
  "agrees pm d \<longleftrightarrow>
     (\<forall>pid p. pm pid = Some p \<longrightarrow>
        p_id p = pid \<and>
        (\<exists>model. products d pid = Some model \<and> deleted_at model = None \<and>
                  stock_quantity model = p_stock_quantity p))"

definition deducted :: "item_data list \<Rightarrow> db \<Rightarrow> db" where
  "deducted its d =
     d\<lparr>products := (\<lambda>pid. map_option
         (\<lambda>model. model\<lparr>stock_quantity := stock_quantity model - requested its pid\<rparr>)
         (products d pid))\<rparr>"

text \<open>The price an order item captures: the one in the product's row.\<close>

definition unit_price_of :: "db \<Rightarrow> int \<Rightarrow> int" where
  "unit_price_of d pid = (case products d pid of None \<Rightarrow> 0 | Some model \<Rightarrow> price model)"

text \<open>
  Every item of the list, taken in order, finds its product existing, not soft-deleted,
  active, and with stock for what the items before it and itself ask of that product.
\<close>

definition in_turn :: "db \<Rightarrow> item_data list \<Rightarrow> bool" where
  "in_turn d its \<longleftrightarrow>
     (\<forall>k<length its. \<exists>model. products d (product_id (its ! k)) = Some model \<and>
        deleted_at model = None \<and> is_active model \<and>
        requested (take k its) (product_id (its ! k)) + quantity (its ! k)
          \<le> stock_quantity model)"

text \<open>What the items of an order give back to a product when the order is cancelled.\<close>

definition returned :: "OrderItemEntity list \<Rightarrow> int \<Rightarrow> int" where
  "returned ois pid = sum_list (map i_quantity (filter (\<lambda>oi. i_product_id oi = pid) ois))"

definition restocked :: "OrderItemEntity list \<Rightarrow> db \<Rightarrow> db" where
  "restocked ois d =
     d\<lparr>products := (\<lambda>pid. map_option
         (\<lambda>model. model\<lparr>stock_quantity := stock_quantity model + returned ois pid\<rparr>)
         (products d pid))\<rparr>"

section \<open>Concrete states\<close>

text \<open>
  A small database the properties are run on: an active and an inactive customer;
  products 1 to 3 active with stocks 20, 30 and 2, product 4 inactive, product 5
  soft-deleted; no order yet.
\<close>

definition demo_product :: "string \<Rightarrow> int \<Rightarrow> int \<Rightarrow> bool \<Rightarrow> nat option \<Rightarrow> Product" where
  "demo_product s pr st a del =
     \<lparr>sku = s, name = s, price = pr, stock_quantity = st, is_active = a, deleted_at = del\<rparr>"

definition demo_db :: db where
  "demo_db =
     \<lparr>customers =
        [1 \<mapsto> \<lparr>customer_name = ''Ana'', customer_is_active = True, customer_deleted_at = None\<rparr>,
         2 \<mapsto> \<lparr>customer_name = ''Bia'', customer_is_active = False, customer_deleted_at = None\<rparr>],
      products =
        [1 \<mapsto> demo_product ''A'' 10000 20 True None,
         2 \<mapsto> demo_product ''B'' 10000 30 True None,
         3 \<mapsto> demo_product ''C'' 10000 2 True None,
         4 \<mapsto> demo_product ''D'' 10000 10 False None,
         5 \<mapsto> demo_product ''E'' 10000 10 True (Some 7)],
      orders = Map.empty, order_seq = 0, order_items = [], order_history = []\<rparr>"

definition demo_customer :: CustomerEntity where
  "demo_customer = \<lparr>c_id = 1, c_name = ''Ana'', c_is_active = True, c_deleted_at = None\<rparr>"

definition demo_order :: "(int \<times> int) list \<Rightarrow> order_data" where
  "demo_order lines =
     \<lparr>customer_id = 1,
      items = map (\<lambda>(pid, qty). \<lparr>product_id = pid, quantity = qty\<rparr>) lines,
      data_notes = []\<rparr>"

text \<open>
  The database after an order of five units of product 1 for customer 1 has been stored
  with the given status: the rows \<open>OrderRepository_create\<close> writes, and the stock of
  product 1 down from 20 to 15.
\<close>

definition demo_db_with_order :: "string \<Rightarrow> db" where
  "demo_db_with_order st =
     demo_db
       \<lparr>products := (products demo_db)(1 \<mapsto> demo_product ''A'' 10000 15 True None),
        orders := [1 \<mapsto> \<lparr>order_number = ''PED-0001'', order_customer = 1,
                          order_status = st, order_notes = [], order_deleted_at = None\<rparr>],
        order_seq := 1,
        order_items := [\<lparr>item_id = 1, item_order = 1, item_product = 1,
                         item_product_sku = ''A'', item_product_name = ''A'',
                         item_quantity = 5, item_unit_price = 10000\<rparr>],
        order_history := [\<lparr>history_order = 1, from_status = [], to_status = ''pending'',
                           changed_by = ''system'', history_notes = ''Pedido criado.''\<rparr>]\<rparr>"

lemmas demo_defs = demo_db_def demo_product_def demo_order_def demo_customer_def

text \<open>
  An operation to run the middleware on: the application state counts the invocations;
  the response is 201 with a JSON body on the orders collection, 200 with a body that
  is not UTF-8 (the byte 255) on \<open>/export/\<close>, and 204 with an empty body elsewhere.
  The decoder does what \<^verbatim>\<open>json.loads\<close> does on these bodies.
\<close>

definition demo_get_response :: "request \<Rightarrow> nat \<Rightarrow> response \<times> nat" where
  "demo_get_response req w =
     (if path req = ''/api/v1/orders/''
      then (\<lparr>status_code = 201, content = ''[1]''\<rparr>, Suc w)
      else if path req = ''/export/''
      then (\<lparr>status_code = 200, content = [CHR 0xFF]\<rparr>, Suc w)
      else (\<lparr>status_code = 204, content = []\<rparr>, Suc w))"

definition demo_loads :: "string \<Rightarrow> string json_result" where
  "demo_loads body =
     (if body = ''[1]'' then Loaded body
      else if body = [CHR 0xFF] then Unhandled ''UnicodeDecodeError''
      else JSONDecodeError)"

definition demo_dumps :: "string \<Rightarrow> string" where
  "demo_dumps v = v"

definition demo_cache :: "string cache" where
  "demo_cache =
     [''idempotency:k1'' \<mapsto> (\<lparr>cached_data = ''[1]'', cached_status = 201\<rparr>, 86400)]"

lemmas demo_http_defs = demo_get_response_def demo_loads_def demo_dumps_def demo_cache_def

section \<open>The locked batch read\<close>

lemma p_id_to_entity [simp]: "p_id (ProductRepository_to_entity pid model) = pid"
  by (simp add: ProductRepository_to_entity_def)

lemma map_p_id_active_rows:
  "map p_id (active_rows tbl pids) =
     filter (\<lambda>pid. case tbl pid of None \<Rightarrow> False | Some model \<Rightarrow> deleted_at model = None) pids"
  by (induction pids) (auto split: option.splits)

lemma active_rows_from_table:
  "p \<in> set (active_rows tbl pids) \<Longrightarrow>
     \<exists>model. tbl (p_id p) = Some model \<and> deleted_at model = None \<and>
             p = ProductRepository_to_entity (p_id p) model"
  by (induction pids) (auto split: option.splits if_splits)

lemma fold_product_map:
  "fold (\<lambda>p m. m(p_id p \<mapsto> p)) (active_rows tbl pids) acc pid =
     (case tbl pid of
        None \<Rightarrow> acc pid
      | Some model \<Rightarrow>
          if pid \<in> set pids \<and> deleted_at model = None
          then Some (ProductRepository_to_entity pid model) else acc pid)"
  by (induction pids arbitrary: acc) (auto split: option.splits)

lemma product_map_of_locked:
  "product_map_of (get_by_ids_for_update ids d) pid =
     (case products d pid of
        None \<Rightarrow> None
      | Some model \<Rightarrow>
          if pid \<in> set ids \<and> deleted_at model = None
          then Some (ProductRepository_to_entity pid model) else None)"
  by (simp add: product_map_of_def get_by_ids_for_update_def fold_product_map split: option.splits)

section \<open>The reservation loop\<close>

lemma requested_Nil [simp]: "requested [] pid = 0"
  by (simp add: requested_def)

lemma requested_Cons [simp]:
  "requested (it # its) pid = (if product_id it = pid then quantity it else 0) + requested its pid"
  by (simp add: requested_def)

lemma new_order_item_stock [simp]:
  "new_order_item (p\<lparr>p_stock_quantity := s\<rparr>) q = new_order_item p q"
  by (simp add: new_order_item_def)

lemma passes_Cons:
  "passes pm (it # its) \<longleftrightarrow>
     (\<exists>p. pm (product_id it) = Some p \<and> p_is_active p \<and> quantity it \<le> p_stock_quantity p \<and>
          passes (pm(product_id it \<mapsto> p\<lparr>p_stock_quantity := p_stock_quantity p - quantity it\<rparr>)) its)"
  (is "?L \<longleftrightarrow> ?R")
proof
  assume L: ?L
  from L have "\<exists>p. pm (product_id it) = Some p \<and> p_is_active p \<and>
      requested (take 0 (it # its)) (product_id it) + quantity it \<le> p_stock_quantity p"
    unfolding passes_def by (auto dest!: spec [of _ 0])
  then obtain p where p: "pm (product_id it) = Some p" "p_is_active p" "quantity it \<le> p_stock_quantity p"
    by auto
  let ?pm = "pm(product_id it \<mapsto> p\<lparr>p_stock_quantity := p_stock_quantity p - quantity it\<rparr>)"
  have "passes ?pm its"
    unfolding passes_def
  proof (intro allI impI)
    fix k assume k: "k < length its"
    with L obtain p' where p': "pm (product_id (its ! k)) = Some p'" "p_is_active p'"
      "requested (take (Suc k) (it # its)) (product_id (its ! k)) + quantity (its ! k) \<le> p_stock_quantity p'"
      unfolding passes_def by (auto dest!: spec [of _ "Suc k"])
    show "\<exists>q. ?pm (product_id (its ! k)) = Some q \<and> p_is_active q \<and>
        requested (take k its) (product_id (its ! k)) + quantity (its ! k) \<le> p_stock_quantity q"
      using p p' by (cases "product_id (its ! k) = product_id it") auto
  qed
  with p show ?R by blast
next
  assume ?R
  then obtain p where p: "pm (product_id it) = Some p" "p_is_active p" "quantity it \<le> p_stock_quantity p"
    and rest: "passes (pm(product_id it \<mapsto> p\<lparr>p_stock_quantity := p_stock_quantity p - quantity it\<rparr>)) its"
    by blast
  show ?L
    unfolding passes_def
  proof (intro allI impI)
    fix k assume k: "k < length (it # its)"
    show "\<exists>q. pm (product_id ((it # its) ! k)) = Some q \<and> p_is_active q \<and>
        requested (take k (it # its)) (product_id ((it # its) ! k)) + quantity ((it # its) ! k) \<le> p_stock_quantity q"
    proof (cases k)
      case 0
      with p show ?thesis by simp
    next
      case (Suc k')
      with k have "k' < length its" by simp
      with rest obtain q where q: "(pm(product_id it \<mapsto> p\<lparr>p_stock_quantity := p_stock_quantity p - quantity it\<rparr>)) (product_id (its ! k')) = Some q"
        "p_is_active q" "requested (take k' its) (product_id (its ! k')) + quantity (its ! k') \<le> p_stock_quantity q"
        unfolding passes_def by blast
      show ?thesis
        using p q Suc by (cases "product_id (its ! k') = product_id it") auto
    qed
  qed
qed

lemma passes_Nil [simp]: "passes pm []"
  by (simp add: passes_def)

lemma reserve_items_passes:
  "passes pm its \<Longrightarrow>
     \<exists>d'. reserve_items pm its d =
       (Inr (map (\<lambda>it. new_order_item (the (pm (product_id it))) (quantity it)) its), d')"
proof (induction its arbitrary: pm d)
  case Nil
  then show ?case by simp
next
  case (Cons it its)
  from Cons.prems obtain p where p: "pm (product_id it) = Some p" "p_is_active p"
      "quantity it \<le> p_stock_quantity p"
    and rest: "passes (pm(product_id it \<mapsto> p\<lparr>p_stock_quantity := p_stock_quantity p - quantity it\<rparr>)) its"
    unfolding passes_Cons by blast
  let ?pm = "pm(product_id it \<mapsto> p\<lparr>p_stock_quantity := p_stock_quantity p - quantity it\<rparr>)"
  let ?d = "snd (update_stock (p_id p) (p_stock_quantity p - quantity it) d)"
  from Cons.IH [OF rest, of ?d] obtain d' where
    IH: "reserve_items ?pm its ?d = (Inr (map (\<lambda>j. new_order_item (the (?pm (product_id j))) (quantity j)) its), d')"
    by blast
  have same: "map (\<lambda>j. new_order_item (the (?pm (product_id j))) (quantity j)) its =
      map (\<lambda>j. new_order_item (the (pm (product_id j))) (quantity j)) its"
    using p by (intro map_cong) auto
  show ?case
    using p IH same by (simp add: has_sufficient_stock_def deduct_stock_def Let_def)
qed


lemma reserve_items_Inr_passes:
  "reserve_items pm its d = (Inr ois, d') \<Longrightarrow> passes pm its"
proof (induction its arbitrary: pm d ois d')
  case Nil
  then show ?case by simp
next
  case (Cons it its)
  from Cons.prems obtain p where p: "pm (product_id it) = Some p"
    by (auto split: option.splits)
  from Cons.prems p have act: "p_is_active p" and enough: "quantity it \<le> p_stock_quantity p"
    by (auto simp: has_sufficient_stock_def split: if_splits)
  let ?pm = "pm(product_id it \<mapsto> p\<lparr>p_stock_quantity := p_stock_quantity p - quantity it\<rparr>)"
  from Cons.prems p act enough obtain r d1 where
    "reserve_items ?pm its (snd (update_stock (p_id p) (p_stock_quantity p - quantity it) d)) = (Inr r, d1)"
    by (auto simp: has_sufficient_stock_def deduct_stock_def Let_def split: prod.splits sum.splits)
  then have "passes ?pm its" by (rule Cons.IH)
  with p act enough show ?case unfolding passes_Cons by blast
qed

lemma reserve_items_first_failure:
  "passes pm pre \<Longrightarrow> pm (product_id it) = Some p \<Longrightarrow>
   \<not> p_is_active p \<or> p_stock_quantity p - requested pre (product_id it) < quantity it \<Longrightarrow>
   fst (reserve_items pm (pre @ it # post) d) =
     Inl (if \<not> p_is_active p then BusinessRuleViolation (ProductInactive (p_sku p))
          else InsufficientStockException (p_sku p) (quantity it)
                 (p_stock_quantity p - requested pre (product_id it)))"
proof (induction pre arbitrary: pm d p)
  case Nil
  then show ?case by (auto simp: has_sufficient_stock_def)
next
  case (Cons j pre)
  from Cons.prems(1) obtain q where q: "pm (product_id j) = Some q" "p_is_active q"
      "quantity j \<le> p_stock_quantity q"
    and rest: "passes (pm(product_id j \<mapsto> q\<lparr>p_stock_quantity := p_stock_quantity q - quantity j\<rparr>)) pre"
    unfolding passes_Cons by blast
  let ?pm = "pm(product_id j \<mapsto> q\<lparr>p_stock_quantity := p_stock_quantity q - quantity j\<rparr>)"
  let ?d = "snd (update_stock (p_id q) (p_stock_quantity q - quantity j) d)"
  let ?p = "if product_id it = product_id j
            then q\<lparr>p_stock_quantity := p_stock_quantity q - quantity j\<rparr> else p"
  have look: "?pm (product_id it) = Some ?p"
    using Cons.prems(2) by simp
  have same: "product_id it = product_id j \<Longrightarrow> p = q"
    using Cons.prems(2) q by simp
  have bad: "\<not> p_is_active ?p \<or> p_stock_quantity ?p - requested pre (product_id it) < quantity it"
    using Cons.prems(3) same by (cases "product_id it = product_id j") auto
  have IH: "fst (reserve_items ?pm (pre @ it # post) ?d) =
     Inl (if \<not> p_is_active ?p then BusinessRuleViolation (ProductInactive (p_sku ?p))
          else InsufficientStockException (p_sku ?p) (quantity it)
                 (p_stock_quantity ?p - requested pre (product_id it)))"
    by (rule Cons.IH [OF rest look bad])
  have err: "(if \<not> p_is_active ?p then BusinessRuleViolation (ProductInactive (p_sku ?p))
          else InsufficientStockException (p_sku ?p) (quantity it)
                 (p_stock_quantity ?p - requested pre (product_id it))) =
       (if \<not> p_is_active p then BusinessRuleViolation (ProductInactive (p_sku p))
          else InsufficientStockException (p_sku p) (quantity it)
                 (p_stock_quantity p - requested (j # pre) (product_id it)))"
    using same by (cases "product_id it = product_id j") auto
  show ?case
    using q IH unfolding err
    by (auto simp: has_sufficient_stock_def deduct_stock_def Let_def split: prod.splits sum.splits)
qed

lemma deducted_Nil [simp]: "deducted [] d = d"
  by (simp add: deducted_def option.map_ident)

lemma reserve_items_db:
  "reserve_items pm its d = (Inr ois, d') \<Longrightarrow> agrees pm d \<Longrightarrow> d' = deducted its d"
proof (induction its arbitrary: pm d ois d')
  case Nil
  then show ?case by simp
next
  case (Cons it its)
  from Cons.prems(1) obtain p where p: "pm (product_id it) = Some p"
    by (auto split: option.splits)
  from Cons.prems(1) p have act: "p_is_active p" and enough: "quantity it \<le> p_stock_quantity p"
    by (auto simp: has_sufficient_stock_def split: if_splits)
  from Cons.prems(2) p obtain model where m: "p_id p = product_id it"
      "products d (product_id it) = Some model" "deleted_at model = None"
      "stock_quantity model = p_stock_quantity p"
    unfolding agrees_def by blast
  let ?pm = "pm(product_id it \<mapsto> p\<lparr>p_stock_quantity := p_stock_quantity p - quantity it\<rparr>)"
  let ?d = "d\<lparr>products := (products d)(product_id it \<mapsto>
               model\<lparr>stock_quantity := p_stock_quantity p - quantity it\<rparr>)\<rparr>"
  have upd: "snd (update_stock (p_id p) (p_stock_quantity p - quantity it) d) = ?d"
    using m by (simp add: update_stock_def)
  from Cons.prems(1) p act enough upd obtain r where
    r: "reserve_items ?pm its ?d = (Inr r, d')"
    by (auto simp: has_sufficient_stock_def deduct_stock_def Let_def split: prod.splits sum.splits)
  have ag: "agrees ?pm ?d"
    using Cons.prems(2) m unfolding agrees_def by auto
  have "d' = deducted its ?d" by (rule Cons.IH [OF r ag])
  also have "\<dots> = deducted (it # its) d"
    using m by (auto simp: deducted_def fun_eq_iff)
  finally show ?case .
qed

section \<open>The transaction block of create\_order\<close>

lemma agrees_locked: "agrees (product_map_of (get_by_ids_for_update ids d)) d"
  unfolding agrees_def
  by (auto simp: product_map_of_locked ProductRepository_to_entity_def split: option.splits if_splits)

lemma requested_nonneg:
  "\<forall>it \<in> set its. 0 \<le> quantity it \<Longrightarrow> 0 \<le> requested its pid"
  by (induction its) auto

lemma OrderEntity_init_service [simp]:
  "OrderEntity_init [''customer_id'', ''customer_name'', ''status'', ''items'', ''notes''] e = Inr e"
  by (simp add: OrderEntity_init_def OrderEntity_fields_def)

lemma requested_append [simp]: "requested (xs @ ys) pid = requested xs pid + requested ys pid"
  by (simp add: requested_def)

lemma requested_prefix:
  assumes "\<forall>it \<in> set its. 0 \<le> quantity it" and "k < length its"
  shows "requested (take k its) (product_id (its ! k)) + quantity (its ! k)
           \<le> requested its (product_id (its ! k))"
proof -
  have split: "its = take k its @ its ! k # drop (Suc k) its"
    using assms(2) by (rule id_take_nth_drop)
  have "0 \<le> requested (drop (Suc k) its) (product_id (its ! k))"
    using assms(1) by (intro requested_nonneg) (auto dest: in_set_dropD)
  moreover have "requested its (product_id (its ! k)) =
      requested (take k its) (product_id (its ! k)) + quantity (its ! k) +
      requested (drop (Suc k) its) (product_id (its ! k))"
    by (subst split) simp
  ultimately show ?thesis by linarith
qed

lemma passes_totals:
  assumes "\<forall>it \<in> set its. 0 \<le> quantity it \<and>
             (\<exists>p. pm (product_id it) = Some p \<and> p_is_active p \<and>
                  requested its (product_id it) \<le> p_stock_quantity p)"
  shows "passes pm its"
  unfolding passes_def
proof (intro allI impI)
  fix k assume k: "k < length its"
  then have "its ! k \<in> set its" by simp
  with assms obtain p where p: "pm (product_id (its ! k)) = Some p" "p_is_active p"
      "requested its (product_id (its ! k)) \<le> p_stock_quantity p"
    by blast
  from assms have "\<forall>it \<in> set its. 0 \<le> quantity it" by blast
  from requested_prefix [OF this k] p
  show "\<exists>p. pm (product_id (its ! k)) = Some p \<and> p_is_active p \<and>
      requested (take k its) (product_id (its ! k)) + quantity (its ! k) \<le> p_stock_quantity p"
    by auto
qed

lemma check_products_exist_all:
  "\<forall>it \<in> set its. pm (product_id it) \<noteq> None \<Longrightarrow> check_products_exist pm its = None"
  by (induction its) auto

lemma check_products_exist_first:
  "\<forall>j \<in> set pre. pm (product_id j) \<noteq> None \<Longrightarrow> pm (product_id it) = None \<Longrightarrow>
     check_products_exist pm (pre @ it # post) =
       Some (EntityNotFoundException ''Produto'' (product_id it))"
  by (induction pre) auto

lemma locked_item:
  "it \<in> set its \<Longrightarrow> products d (product_id it) = Some model \<Longrightarrow> deleted_at model = None \<Longrightarrow>
     product_map_of (get_by_ids_for_update (map product_id its) d) (product_id it) =
       Some (ProductRepository_to_entity (product_id it) model)"
  by (simp add: product_map_of_locked)

lemma validate_item_ok:
  "0 < i_quantity oi \<Longrightarrow> 0 < i_unit_price oi \<Longrightarrow> validate_item oi = []"
  by simp

lemma validate_ok:
  "o_customer_id e \<noteq> 0 \<Longrightarrow> o_items e \<noteq> [] \<Longrightarrow>
   \<forall>oi \<in> set (o_items e). 0 < i_quantity oi \<and> 0 < i_unit_price oi \<Longrightarrow> validate e = []"
  unfolding validate_def by (simp del: validate_item.simps add: validate_item_ok)

lemma passes_in_turn:
  assumes "in_turn d pre" and "set pre \<subseteq> set its"
  shows "passes (product_map_of (get_by_ids_for_update (map product_id its) d)) pre"
  unfolding passes_def
proof (intro allI impI)
  fix k assume k: "k < length pre"
  let ?pm = "product_map_of (get_by_ids_for_update (map product_id its) d)"
  from assms(1) k obtain model where m: "products d (product_id (pre ! k)) = Some model"
      "deleted_at model = None" "is_active model"
      "requested (take k pre) (product_id (pre ! k)) + quantity (pre ! k) \<le> stock_quantity model"
    unfolding in_turn_def by blast
  from k assms(2) have "pre ! k \<in> set its" by auto
  from locked_item [OF this m(1,2)] m(3,4)
  show "\<exists>p. ?pm (product_id (pre ! k)) = Some p \<and> p_is_active p \<and>
      requested (take k pre) (product_id (pre ! k)) + quantity (pre ! k) \<le> p_stock_quantity p"
    by (simp add: ProductRepository_to_entity_def)
qed

lemma locked_live:
  "it \<in> set its \<Longrightarrow>
     product_map_of (get_by_ids_for_update (map product_id its) d) (product_id it) \<noteq> None
       \<longleftrightarrow> is_live d (product_id it)"
  by (auto simp: product_map_of_locked is_live_def split: option.splits)

lemma create_order_raises:
  assumes "CustomerRepository_get_by_id (customer_id data) d = Some customer"
    and "c_is_active customer" and "items data \<noteq> []"
    and "fst (create_order_prepare customer data d) = Inl e"
  shows "create_order number data d = (Inl e, d)"
  using assms
  by (cases "create_order_prepare customer data d")
     (simp add: create_order_def atomic_def create_order_block_def)

section \<open>Reading an order back\<close>

text \<open>
  \<open>_to_entity\<close> passes the keyword \<open>order_number\<close>, which is no field of
  \<open>OrderEntity\<close>: the constructor raises, so no stored order is ever read back.
\<close>

lemma OrderEntity_init_to_entity:
  "OrderEntity_init to_entity_keywords e = Inl (TypeError ''order_number'')"
  by (simp add: OrderEntity_init_def to_entity_keywords_def OrderEntity_fields_def)

lemma OrderStatus_of_value_value [simp]:
  "OrderStatus_of_value (OrderStatus_value s) = Some s"
  by (cases s) (simp_all add: OrderStatus_of_value_def)

lemma OrderRepository_to_entity_raises:
  "OrderRepository_to_entity oid model customer d =
     (case OrderStatus_of_value (order_status model) of
        None \<Rightarrow> Inl ValueError
      | Some status \<Rightarrow> Inl (TypeError ''order_number''))"
  by (simp add: OrderRepository_to_entity_def OrderEntity_init_to_entity Let_def
      split: option.splits)

lemma get_order_raises: "\<exists>e. get_order order_id d = Inl e"
  by (auto simp: get_order_def OrderRepository_get_by_id_def OrderRepository_to_entity_raises
      split: option.splits sum.splits)

lemma cancel_order_raises: "\<exists>e. cancel_order order_id reason d = (Inl e, d)"
  using get_order_raises [of order_id d] by (auto simp: cancel_order_def)

section \<open>The loop of cancel\_order undoes the loop of create\_order\<close>

text \<open>
  Taken by themselves, the two transaction blocks round-trip: on the products table that
  the block of \<open>create_order\<close> leaves, the block of \<open>cancel_order\<close> run on the
  entity that block built gives every product its stock back.
\<close>

lemma returned_Nil [simp]: "returned [] pid = 0"
  by (simp add: returned_def)

lemma returned_Cons [simp]:
  "returned (oi # ois) pid = (if i_product_id oi = pid then i_quantity oi else 0) + returned ois pid"
  by (simp add: returned_def)

lemma restocked_Nil [simp]: "restocked [] d = d"
  by (simp add: restocked_def option.map_ident)

lemma restore_items_db:
  "agrees pm d \<Longrightarrow> \<forall>oi \<in> set ois. pm (i_product_id oi) \<noteq> None \<Longrightarrow>
     restore_items pm ois d = restocked ois d"
proof (induction ois arbitrary: pm d)
  case Nil
  then show ?case by simp
next
  case (Cons oi ois)
  from Cons.prems(2) obtain p where p: "pm (i_product_id oi) = Some p" by auto
  from Cons.prems(1) p obtain model where m: "p_id p = i_product_id oi"
      "products d (i_product_id oi) = Some model" "deleted_at model = None"
      "stock_quantity model = p_stock_quantity p"
    unfolding agrees_def by blast
  let ?pm = "pm(i_product_id oi \<mapsto> p\<lparr>p_stock_quantity := p_stock_quantity p + i_quantity oi\<rparr>)"
  let ?d = "d\<lparr>products := (products d)(i_product_id oi \<mapsto>
               model\<lparr>stock_quantity := p_stock_quantity p + i_quantity oi\<rparr>)\<rparr>"
  have upd: "snd (update_stock (p_id p) (p_stock_quantity p + i_quantity oi) d) = ?d"
    using m by (simp add: update_stock_def)
  have ag: "agrees ?pm ?d"
    using Cons.prems(1) m unfolding agrees_def by auto
  have dom: "\<forall>x \<in> set ois. ?pm (i_product_id x) \<noteq> None"
    using Cons.prems(2) by auto
  have "restore_items pm (oi # ois) d = restore_items ?pm ois ?d"
    using p upd by (simp add: restore_stock_def Let_def)
  also have "\<dots> = restocked ois ?d" by (rule Cons.IH [OF ag dom])
  also have "\<dots> = restocked (oi # ois) d"
    using m by (auto simp: restocked_def fun_eq_iff)
  finally show ?case .
qed

lemma returned_new_order_items:
  "\<forall>it \<in> set its. \<exists>p. pm (product_id it) = Some p \<and> p_id p = product_id it \<Longrightarrow>
     returned (map (\<lambda>it. new_order_item (the (pm (product_id it))) (quantity it)) its) pid =
       requested its pid"
  by (induction its) (auto simp: new_order_item_def)

lemma update_status_products [simp]:
  "products (snd (OrderRepository_update_status order_id new_status text d)) = products d"
  by (simp add: OrderRepository_update_status_def split: option.splits)

lemma cancel_order_block_undoes_prepare:
  assumes prep: "create_order_prepare customer data d = (Inr entity, d')"
    and same: "products d1 = products d'"
  shows "products (snd (cancel_order_block entity order_id reason d1)) = products d"
proof -
  let ?its = "items data"
  let ?pm = "product_map_of (get_by_ids_for_update (map product_id ?its) d)"
  let ?ois = "map (\<lambda>it. new_order_item (the (?pm (product_id it))) (quantity it)) ?its"
  from prep obtain r where r: "reserve_items ?pm ?its d = (Inr r, d')"
    and ent: "o_items entity = r"
    by (auto simp: create_order_prepare_def Let_def
        split: option.splits prod.splits sum.splits list.splits)
  from r have pass: "passes ?pm ?its" by (rule reserve_items_Inr_passes)
  from reserve_items_passes [OF pass, of d] r have ois: "r = ?ois" by auto
  have d': "d' = deducted ?its d" using r agrees_locked by (rule reserve_items_db)
  have locked: "\<exists>p. ?pm (product_id it) = Some p \<and> p_id p = product_id it"
    if "it \<in> set ?its" for it
  proof -
    from that obtain k where "k < length ?its" "?its ! k = it"
      by (auto simp: in_set_conv_nth)
    with pass obtain p where "?pm (product_id it) = Some p" unfolding passes_def by blast
    moreover from this agrees_locked [of "map product_id ?its" d] have "p_id p = product_id it"
      unfolding agrees_def by blast
    ultimately show ?thesis by blast
  qed
  have ret: "returned ?ois pid = requested ?its pid" for pid
    by (rule returned_new_order_items) (use locked in blast)
  have pid: "i_product_id (new_order_item (the (?pm (product_id it))) (quantity it)) =
      product_id it" if "it \<in> set ?its" for it
    using locked [OF that] by (auto simp: new_order_item_def)
  have ids: "map i_product_id ?ois = map product_id ?its"
    using pid by simp
  let ?pm1 = "product_map_of (get_by_ids_for_update (map i_product_id ?ois) d1)"
  have live: "?pm1 (i_product_id oi) \<noteq> None" if "oi \<in> set ?ois" for oi
  proof -
    from that obtain it where it: "it \<in> set ?its" "i_product_id oi = product_id it"
      using pid by auto
    from locked [OF it(1)] obtain model where "products d (product_id it) = Some model"
        "deleted_at model = None"
      by (auto simp: product_map_of_locked split: option.splits if_splits)
    then have "\<exists>model'. products d1 (product_id it) = Some model' \<and> deleted_at model' = None"
      unfolding same d' by (simp add: deducted_def)
    with it show ?thesis
      unfolding ids by (auto simp: product_map_of_locked)
  qed
  have "restore_items ?pm1 ?ois d1 = restocked ?ois d1"
    by (rule restore_items_db [OF agrees_locked]) (use live in blast)
  moreover have "products (restocked ?ois d1) = products d"
  proof
    fix pid
    have "products d1 pid = map_option
        (\<lambda>model. model\<lparr>stock_quantity := stock_quantity model - requested ?its pid\<rparr>)
        (products d pid)"
      using same d' by (simp add: deducted_def)
    then show "products (restocked ?ois d1) pid = products d pid"
      by (cases "products d pid") (simp_all add: restocked_def ret)
  qed
  ultimately show ?thesis
    using ent ois by (simp add: cancel_order_block_def Let_def)
qed

section \<open>The two passes of create\_order, and what they hand to the repository\<close>

lemma create_order_first_pass:
  assumes found: "CustomerRepository_get_by_id (customer_id data) d = Some customer"
    and active: "c_is_active customer"
    and split: "items data = pre @ it # post"
    and pre: "\<forall>j \<in> set pre. is_live d (product_id j)"
    and it: "\<not> is_live d (product_id it)"
  shows "create_order number data d =
           (Inl (EntityNotFoundException ''Produto'' (product_id it)), d)"
proof -
  let ?its = "items data"
  let ?pm = "product_map_of (get_by_ids_for_update (map product_id ?its) d)"
  have nonempty: "?its \<noteq> []" using split by simp
  have mem: "it \<in> set ?its" and sub: "set pre \<subseteq> set ?its" using split by auto
  have "\<forall>j \<in> set pre. ?pm (product_id j) \<noteq> None"
    using pre sub locked_live [of _ ?its d] by blast
  moreover have "?pm (product_id it) = None"
    using it locked_live [OF mem, of d] by simp
  ultimately have "check_products_exist ?pm (pre @ it # post) =
      Some (EntityNotFoundException ''Produto'' (product_id it))"
    by (rule check_products_exist_first)
  then have "fst (create_order_prepare customer data d) =
      Inl (EntityNotFoundException ''Produto'' (product_id it))"
    using split by (simp add: create_order_prepare_def Let_def)
  with found active nonempty show ?thesis by (rule create_order_raises)
qed

lemma create_order_second_pass:
  assumes found: "CustomerRepository_get_by_id (customer_id data) d = Some customer"
    and active: "c_is_active customer"
    and split: "items data = pre @ it # post"
    and live: "\<forall>j \<in> set (items data). is_live d (product_id j)"
    and pre: "in_turn d pre"
    and m: "products d (product_id it) = Some model"
    and bad: "\<not> is_active model \<or>
              stock_quantity model - requested pre (product_id it) < quantity it"
  shows "create_order number data d =
      (Inl (if \<not> is_active model then BusinessRuleViolation (ProductInactive (sku model))
            else InsufficientStockException (sku model) (quantity it)
                   (stock_quantity model - requested pre (product_id it))), d)"
proof -
  let ?its = "items data"
  let ?pm = "product_map_of (get_by_ids_for_update (map product_id ?its) d)"
  have nonempty: "?its \<noteq> []" using split by simp
  have mem: "it \<in> set ?its" and sub: "set pre \<subseteq> set ?its" using split by auto
  have "\<forall>j \<in> set ?its. ?pm (product_id j) \<noteq> None"
    using live locked_live [of _ ?its d] by blast
  then have exist: "check_products_exist ?pm ?its = None"
    by (rule check_products_exist_all)
  have pass: "passes ?pm pre" using pre sub by (rule passes_in_turn)
  from live mem m have "deleted_at model = None" by (auto simp: is_live_def)
  with mem m have look: "?pm (product_id it) =
      Some (ProductRepository_to_entity (product_id it) model)"
    by (rule locked_item)
  let ?p = "ProductRepository_to_entity (product_id it) model"
  have bad': "\<not> p_is_active ?p \<or>
      p_stock_quantity ?p - requested pre (product_id it) < quantity it"
    using bad by (simp add: ProductRepository_to_entity_def)
  from reserve_items_first_failure [OF pass look bad', of post d]
  have "fst (reserve_items ?pm ?its d) =
     Inl (if \<not> is_active model then BusinessRuleViolation (ProductInactive (sku model))
          else InsufficientStockException (sku model) (quantity it)
                 (stock_quantity model - requested pre (product_id it)))"
    unfolding split by (simp add: ProductRepository_to_entity_def)
  then have "fst (create_order_prepare customer data d) =
     Inl (if \<not> is_active model then BusinessRuleViolation (ProductInactive (sku model))
          else InsufficientStockException (sku model) (quantity it)
                 (stock_quantity model - requested pre (product_id it)))"
    using exist
    by (cases "reserve_items ?pm ?its d") (simp add: create_order_prepare_def Let_def)
  with found active nonempty show ?thesis by (rule create_order_raises)
qed

lemma in_turn_first_failure:
  assumes live: "\<forall>j \<in> set its. is_live d (product_id j)" and bad: "\<not> in_turn d its"
  shows "\<exists>k model. k < length its \<and> in_turn d (take k its) \<and>
           products d (product_id (its ! k)) = Some model \<and>
           (\<not> is_active model \<or>
            stock_quantity model - requested (take k its) (product_id (its ! k))
              < quantity (its ! k))"
proof -
  let ?ok = "\<lambda>k. \<exists>model. products d (product_id (its ! k)) = Some model \<and>
        deleted_at model = None \<and> is_active model \<and>
        requested (take k its) (product_id (its ! k)) + quantity (its ! k)
          \<le> stock_quantity model"
  from bad have "\<exists>k. k < length its \<and> \<not> ?ok k"
    unfolding in_turn_def by blast
  then obtain k where k: "k < length its" "\<not> ?ok k"
    and least: "\<forall>j<k. \<not> (j < length its \<and> \<not> ?ok j)"
    using exists_least_iff [of "\<lambda>k. k < length its \<and> \<not> ?ok k"] by blast
  have pre: "in_turn d (take k its)"
    unfolding in_turn_def
  proof (intro allI impI)
    fix j assume "j < length (take k its)"
    then have j: "j < k" "j < length its" by simp_all
    with least have "?ok j" by blast
    moreover from j have "take k its ! j = its ! j" "take j (take k its) = take j its"
      by (simp_all add: min_def)
    ultimately show "\<exists>model. products d (product_id (take k its ! j)) = Some model \<and>
        deleted_at model = None \<and> is_active model \<and>
        requested (take j (take k its)) (product_id (take k its ! j)) + quantity (take k its ! j)
          \<le> stock_quantity model"
      by simp
  qed
  from k(1) live have "is_live d (product_id (its ! k))" by simp
  then obtain model where m: "products d (product_id (its ! k)) = Some model"
      "deleted_at model = None"
    by (auto simp: is_live_def split: option.splits)
  with k(2) have "\<not> is_active model \<or>
      stock_quantity model - requested (take k its) (product_id (its ! k)) < quantity (its ! k)"
    by auto
  with k(1) pre m(1) show ?thesis by blast
qed

lemma create_order_prepare_reserves:
  assumes found: "CustomerRepository_get_by_id (customer_id data) d = Some customer"
    and customer: "c_is_active customer"
    and nonempty: "items data \<noteq> []"
    and cid: "customer_id data \<noteq> 0"
    and ok: "\<forall>it \<in> set (items data). 0 < quantity it \<and>
               (\<exists>model. products d (product_id it) = Some model \<and> deleted_at model = None \<and>
                   is_active model \<and> 0 < price model \<and>
                   requested (items data) (product_id it) \<le> stock_quantity model)"
  shows "\<exists>entity.
           create_order_prepare customer data d = (Inr entity, deducted (items data) d) \<and>
           create_order number data d =
             (case OrderRepository_create number entity (deducted (items data) d) of
                (Inl e, d') \<Rightarrow> (Inl e, d)
              | (Inr None, d') \<Rightarrow> (Inl AttributeError, d')
              | (Inr (Some order), d') \<Rightarrow> (Inr order, d')) \<and>
           o_status entity = PENDING \<and>
           o_customer_id entity = customer_id data \<and>
           map i_product_id (o_items entity) = map product_id (items data) \<and>
           map i_quantity (o_items entity) = map quantity (items data) \<and>
           map i_unit_price (o_items entity) =
             map (\<lambda>it. unit_price_of d (product_id it)) (items data) \<and>
           total entity =
             sum_list (map (\<lambda>it. quantity it * unit_price_of d (product_id it)) (items data))"
proof -
  let ?its = "items data"
  let ?pm = "product_map_of (get_by_ids_for_update (map product_id ?its) d)"
  let ?ois = "map (\<lambda>it. new_order_item (the (?pm (product_id it))) (quantity it)) ?its"
  let ?e = "\<lparr>o_id = None, o_customer_id = customer_id data, o_customer_name = c_name customer,
             o_status = PENDING, o_items = ?ois, o_notes = data_notes data,
             o_deleted_at = None\<rparr>"
  have look: "\<exists>model. products d (product_id it) = Some model \<and> deleted_at model = None \<and>
        is_active model \<and> 0 < price model \<and>
        requested ?its (product_id it) \<le> stock_quantity model \<and>
        ?pm (product_id it) = Some (ProductRepository_to_entity (product_id it) model)"
    if "it \<in> set ?its" for it
    using ok that locked_item [OF that] by blast
  have exist: "check_products_exist ?pm ?its = None"
    by (rule check_products_exist_all) (use look in auto)
  have pass: "passes ?pm ?its"
  proof (rule passes_totals, intro ballI)
    fix it assume it: "it \<in> set ?its"
    from look [OF it] ok it
    show "0 \<le> quantity it \<and> (\<exists>p. ?pm (product_id it) = Some p \<and> p_is_active p \<and>
              requested ?its (product_id it) \<le> p_stock_quantity p)"
      by (auto simp: ProductRepository_to_entity_def)
  qed
  from reserve_items_passes [OF pass, of d] obtain d' where
    res: "reserve_items ?pm ?its d = (Inr ?ois, d')" by blast
  have d': "d' = deducted ?its d"
    using res agrees_locked by (rule reserve_items_db)
  have item: "i_product_id (new_order_item (the (?pm (product_id it))) (quantity it)) = product_id it \<and>
      i_quantity (new_order_item (the (?pm (product_id it))) (quantity it)) = quantity it \<and>
      i_unit_price (new_order_item (the (?pm (product_id it))) (quantity it)) =
        unit_price_of d (product_id it) \<and> 0 < unit_price_of d (product_id it) \<and> 0 < quantity it"
    if "it \<in> set ?its" for it
    using look [OF that] ok that
    by (auto simp: new_order_item_def ProductRepository_to_entity_def unit_price_of_def)
  have valid: "validate ?e = []"
    by (rule validate_ok) (use cid nonempty item in auto)
  have prep: "create_order_prepare customer data d = (Inr ?e, deducted ?its d)"
    using exist res d' valid by (simp add: create_order_prepare_def Let_def)
  have blk: "create_order_block number customer data d =
      OrderRepository_create number ?e (deducted ?its d)"
    using prep by (simp add: create_order_block_def)
  have tot: "total ?e = sum_list (map (\<lambda>it. quantity it * unit_price_of d (product_id it)) ?its)"
  proof -
    have "map subtotal ?ois = map (\<lambda>it. quantity it * unit_price_of d (product_id it)) ?its"
      using item by (auto simp: subtotal_def mult.commute)
    then have "sum_list (map subtotal ?ois) =
        sum_list (map (\<lambda>it. quantity it * unit_price_of d (product_id it)) ?its)"
      by (rule arg_cong)
    with nonempty show ?thesis by (simp add: total_def del: map_map)
  qed
  have "map i_product_id (o_items ?e) = map product_id ?its"
    and "map i_quantity (o_items ?e) = map quantity ?its"
    and "map i_unit_price (o_items ?e) = map (\<lambda>it. unit_price_of d (product_id it)) ?its"
    using item by auto
  moreover have "create_order number data d =
      (case OrderRepository_create number ?e (deducted ?its d) of
         (Inl e, d') \<Rightarrow> (Inl e, d)
       | (Inr None, d') \<Rightarrow> (Inl AttributeError, d')
       | (Inr (Some order), d') \<Rightarrow> (Inr order, d'))"
    using found customer nonempty blk
    by (simp add: create_order_def atomic_def split: prod.splits sum.splits option.splits)
  ultimately show ?thesis using prep tot by (intro exI [of _ ?e]) simp
qed

lemma OrderRepository_create_fst:
  "fst (OrderRepository_create number entity d) =
     (case customers d (o_customer_id entity) of
        None \<Rightarrow> Inr None
      | Some customer \<Rightarrow> Inl (TypeError ''order_number''))"
  by (simp add: OrderRepository_create_def OrderRepository_get_by_id_def
      OrderRepository_to_entity_raises Let_def split: option.splits)

lemma customers_deducted [simp]: "customers (deducted its d) = customers d"
  by (simp add: deducted_def)

section \<open>The transition table is complete\<close>

text \<open>
  C2. \<open>can_transition_to\<close> is true exactly on the six edges pending-confirmed,
  pending-cancelled, confirmed-separated, confirmed-cancelled, separated-shipped and
  shipped-delivered, and false on every other ordered pair of states; so
  pending-shipped is rejected and delivered and cancelled have no outgoing edge.
\<close>

theorem can_transition_to_table:
  "can_transition_to s t =
     ((s, t) = (PENDING, CONFIRMED) \<or> (s, t) = (PENDING, CANCELLED) \<or>
      (s, t) = (CONFIRMED, SEPARATED) \<or> (s, t) = (CONFIRMED, CANCELLED) \<or>
      (s, t) = (SEPARATED, SHIPPED) \<or> (s, t) = (SHIPPED, DELIVERED))"
  by (cases s; cases t; simp add: can_transition_to_def)

section \<open>The locked batch read returns the live requested rows in key order\<close>

text \<open>
  C9. For every list of product ids, \<open>get_by_ids_for_update\<close> returns exactly the
  requested products that exist and are not soft-deleted (a missing or soft-deleted id is
  silently absent), each once, in ascending order of product id; and each returned
  product carries the SKU, name, price, stock quantity, active flag and deletion mark of
  the table row of its id.
\<close>

theorem get_by_ids_for_update_contract:
  "set (map p_id (get_by_ids_for_update ids d)) = {pid \<in> set ids. is_live d pid} \<and>
   sorted (map p_id (get_by_ids_for_update ids d)) \<and>
   distinct (map p_id (get_by_ids_for_update ids d)) \<and>
   (\<forall>p \<in> set (get_by_ids_for_update ids d).
      \<exists>model. products d (p_id p) = Some model \<and> deleted_at model = None \<and>
        p = \<lparr>p_id = p_id p, p_sku = sku model, p_name = name model, p_price = price model,
             p_stock_quantity = stock_quantity model, p_is_active = is_active model,
             p_deleted_at = None\<rparr>)"
proof -
  let ?R = "get_by_ids_for_update ids d"
  have ids: "map p_id ?R = filter (is_live d) (sort (remdups ids))"
    unfolding get_by_ids_for_update_def is_live_def by (rule map_p_id_active_rows)
  have "set (map p_id ?R) = {pid \<in> set ids. is_live d pid}"
    unfolding ids by auto
  moreover have "sorted (map p_id ?R)"
    unfolding ids using sorted_filter [of id "sort (remdups ids)" "is_live d"] by simp
  moreover have "distinct (map p_id ?R)"
    unfolding ids by simp
  moreover have "\<forall>p \<in> set ?R.
      \<exists>model. products d (p_id p) = Some model \<and> deleted_at model = None \<and>
        p = \<lparr>p_id = p_id p, p_sku = sku model, p_name = name model, p_price = price model,
             p_stock_quantity = stock_quantity model, p_is_active = is_active model,
             p_deleted_at = None\<rparr>"
  proof
    fix p assume "p \<in> set ?R"
    then obtain model where m: "products d (p_id p) = Some model" "deleted_at model = None"
        "p = ProductRepository_to_entity (p_id p) model"
      unfolding get_by_ids_for_update_def using active_rows_from_table by blast
    from m(3) have "p = \<lparr>p_id = p_id p, p_sku = sku model, p_name = name model,
        p_price = price model, p_stock_quantity = stock_quantity model,
        p_is_active = is_active model, p_deleted_at = None\<rparr>"
      using m(2) by (simp add: ProductRepository_to_entity_def)
    with m(1,2) show "\<exists>model. products d (p_id p) = Some model \<and> deleted_at model = None \<and>
        p = \<lparr>p_id = p_id p, p_sku = sku model, p_name = name model, p_price = price model,
             p_stock_quantity = stock_quantity model, p_is_active = is_active model,
             p_deleted_at = None\<rparr>"
      by blast
  qed
  ultimately show ?thesis by blast
qed

theorem get_by_ids_for_update_contract_witness:
  "get_by_ids_for_update [3, 5, 1, 7, 1] demo_db =
     [\<lparr>p_id = 1, p_sku = ''A'', p_name = ''A'', p_price = 10000, p_stock_quantity = 20,
       p_is_active = True, p_deleted_at = None\<rparr>,
      \<lparr>p_id = 3, p_sku = ''C'', p_name = ''C'', p_price = 10000, p_stock_quantity = 2,
       p_is_active = True, p_deleted_at = None\<rparr>] \<and>
   set (map p_id (get_by_ids_for_update [3, 5, 1, 7, 1] demo_db)) = {1, 3}"
proof -
  let ?R = "get_by_ids_for_update [3, 5, 1, 7, 1] demo_db"
  note contract = get_by_ids_for_update_contract [of "[3, 5, 1, 7, 1]" demo_db]
  have live: "{pid \<in> set [3, 5, 1, 7, 1]. is_live demo_db pid} = {1, 3}"
    by (auto simp: is_live_def demo_defs)
  from contract live have ids: "set (map p_id ?R) = {1, 3}" by simp
  from contract have srt: "sorted (map p_id ?R)" and dst: "distinct (map p_id ?R)" by simp_all
  have "map p_id ?R = [1, 3]"
  proof (rule sorted_distinct_set_unique)
    show "sorted (map p_id ?R)" by (rule srt)
    show "distinct (map p_id ?R)" by (rule dst)
    show "sorted [1, 3 :: int]" by simp
    show "distinct [1, 3 :: int]" by simp
    show "set (map p_id ?R) = set [1, 3]" using ids by auto
  qed
  then obtain a b where R: "?R = [a, b]" "p_id a = 1" "p_id b = 3"
    by (auto simp: map_eq_Cons_conv)
  from contract R have
    "\<exists>model. products demo_db 1 = Some model \<and>
       a = \<lparr>p_id = 1, p_sku = sku model, p_name = name model, p_price = price model,
            p_stock_quantity = stock_quantity model, p_is_active = is_active model,
            p_deleted_at = None\<rparr>"
    "\<exists>model. products demo_db 3 = Some model \<and>
       b = \<lparr>p_id = 3, p_sku = sku model, p_name = name model, p_price = price model,
            p_stock_quantity = stock_quantity model, p_is_active = is_active model,
            p_deleted_at = None\<rparr>"
    by auto
  then have "a = \<lparr>p_id = 1, p_sku = ''A'', p_name = ''A'', p_price = 10000,
        p_stock_quantity = 20, p_is_active = True, p_deleted_at = None\<rparr>"
    and "b = \<lparr>p_id = 3, p_sku = ''C'', p_name = ''C'', p_price = 10000,
        p_stock_quantity = 2, p_is_active = True, p_deleted_at = None\<rparr>"
    by (auto simp: demo_defs)
  with R ids show ?thesis by simp
qed

section \<open>A failing item leaves nothing behind\<close>

text \<open>
  C1, as amended. All-or-nothing reservation: for every \<open>create_order\<close> request
  whose customer exists and is active and in which at least one item fails a check as
  the code runs them (its product is missing among the locked rows; or, every product
  being there, its product is inactive or has less stock left, after the deductions for
  the items before it, than the item asks for), the call fails with the error of the
  first such item: \<open>EntityNotFoundException\<close> for the first missing product,
  otherwise \<open>BusinessRuleViolation\<close> for the inactive product or
  \<open>InsufficientStockException\<close> (SKU, requested, remaining) of the first item
  that fails in the second pass. The call returns the database exactly as it was before:
  the deductions already written for earlier items are undone, every stock quantity is
  unchanged and no order, order item or history row exists for the attempt.
\<close>

theorem create_order_all_or_nothing:
  assumes found: "CustomerRepository_get_by_id (customer_id data) d = Some customer"
    and active: "c_is_active customer"
    and fails: "\<not> ((\<forall>j \<in> set (items data). is_live d (product_id j)) \<and>
                    in_turn d (items data))"
  shows "\<exists>pre it post. items data = pre @ it # post \<and>
           ((\<forall>j \<in> set pre. is_live d (product_id j)) \<and> \<not> is_live d (product_id it) \<and>
              create_order number data d =
                (Inl (EntityNotFoundException ''Produto'' (product_id it)), d)
            \<or>
            (\<forall>j \<in> set (items data). is_live d (product_id j)) \<and> in_turn d pre \<and>
              (\<exists>model. products d (product_id it) = Some model \<and>
                 (\<not> is_active model \<and>
                    create_order number data d =
                      (Inl (BusinessRuleViolation (ProductInactive (sku model))), d)
                  \<or>
                  is_active model \<and>
                    stock_quantity model - requested pre (product_id it) < quantity it \<and>
                    create_order number data d =
                      (Inl (InsufficientStockException (sku model) (quantity it)
                              (stock_quantity model - requested pre (product_id it))), d))))"
proof (cases "\<forall>j \<in> set (items data). is_live d (product_id j)")
  case False
  then have "\<exists>j \<in> set (items data). \<not> is_live d (product_id j)" by blast
  from split_list_first_prop [OF this]
  obtain pre it post where split: "items data = pre @ it # post"
    and it: "\<not> is_live d (product_id it)"
    and pre': "\<forall>j \<in> set pre. is_live d (product_id j)"
    by auto
  from create_order_first_pass [OF found active split pre' it, of number] split pre' it
  show ?thesis by blast
next
  case True
  with fails have "\<not> in_turn d (items data)" by blast
  from in_turn_first_failure [OF True this] obtain k model where
    k: "k < length (items data)" and pre: "in_turn d (take k (items data))"
    and m: "products d (product_id (items data ! k)) = Some model"
    and bad: "\<not> is_active model \<or>
        stock_quantity model - requested (take k (items data)) (product_id (items data ! k))
          < quantity (items data ! k)"
    by blast
  let ?pre = "take k (items data)" and ?it = "items data ! k"
  let ?post = "drop (Suc k) (items data)"
  have split: "items data = ?pre @ ?it # ?post"
    using k by (rule id_take_nth_drop)
  note second = create_order_second_pass [OF found active split True pre m bad, of number]
  show ?thesis
  proof (cases "is_active model")
    case False
    with second split True pre m show ?thesis by (intro exI [of _ ?pre] exI [of _ ?it] exI [of _ ?post]) auto
  next
    case act: True
    with bad second split True pre m show ?thesis
      by (intro exI [of _ ?pre] exI [of _ ?it] exI [of _ ?post]) auto
  qed
qed

theorem create_order_all_or_nothing_witness:
  "create_order ''PED-0001'' (demo_order [(3, 1), (3, 2)]) demo_db =
     (Inl (InsufficientStockException ''C'' 2 1), demo_db) \<and>
   map_option stock_quantity
     (products (snd (create_order_prepare demo_customer (demo_order [(3, 1), (3, 2)]) demo_db)) 3)
     = Some 1 \<and>
   map_option stock_quantity (products demo_db 3) = Some 2"
proof -
  let ?data = "demo_order [(3, 1), (3, 2)]"
  have found: "CustomerRepository_get_by_id (customer_id ?data) demo_db = Some demo_customer"
    by (simp add: CustomerRepository_get_by_id_def demo_defs)
  have active: "c_is_active demo_customer" by (simp add: demo_defs)
  have "\<not> in_turn demo_db (items ?data)"
    unfolding in_turn_def by (auto simp: demo_defs dest!: spec [of _ 1])
  then have fails: "\<not> ((\<forall>j \<in> set (items ?data). is_live demo_db (product_id j)) \<and>
      in_turn demo_db (items ?data))"
    by blast
  from create_order_all_or_nothing [OF found active fails, of "''PED-0001''"]
  obtain e where e: "create_order ''PED-0001'' ?data demo_db = (Inl e, demo_db)"
    by blast
  have "fst (create_order ''PED-0001'' ?data demo_db) = Inl (InsufficientStockException ''C'' 2 1)"
    by (simp add: create_order_def demo_defs CustomerRepository_get_by_id_def atomic_def
        create_order_block_def create_order_prepare_def get_by_ids_for_update_def
        product_map_of_def ProductRepository_to_entity_def has_sufficient_stock_def
        deduct_stock_def update_stock_def new_order_item_def Let_def)
  moreover have "map_option stock_quantity
     (products (snd (create_order_prepare demo_customer ?data demo_db)) 3) = Some 1"
    by (simp add: demo_defs create_order_prepare_def get_by_ids_for_update_def
        product_map_of_def ProductRepository_to_entity_def has_sufficient_stock_def
        deduct_stock_def update_stock_def new_order_item_def Let_def)
  moreover have "map_option stock_quantity (products demo_db 3) = Some 2"
    by (simp add: demo_defs)
  ultimately show ?thesis using e by simp
qed

text \<open>
  The claim as stated fails where the error is not the failing item's: the customer is
  checked before any item, so an unknown customer is reported although the only item
  asks for more than the stock; and after a line of negative quantity has raised the
  stock, a line that asks for more than the stock before the call passes its check, and
  the call ends in the validation error of the negative line.
\<close>

theorem create_order_other_error_counterexample:
  "products demo_db 3 = Some (demo_product ''C'' 10000 2 True None) \<and>
   customers demo_db 9 = None \<and>
   create_order ''PED-0001''
     \<lparr>customer_id = 9, items = [\<lparr>product_id = 3, quantity = 15\<rparr>], data_notes = []\<rparr> demo_db =
     (Inl (EntityNotFoundException ''Cliente'' 9), demo_db) \<and>
   products demo_db 1 = Some (demo_product ''A'' 10000 20 True None) \<and>
   create_order ''PED-0001'' (demo_order [(1, - 5), (1, 22)]) demo_db =
     (Inl (BusinessRuleViolation (Joined [InvalidQuantity ''A''])), demo_db)"
  by (simp add: create_order_def demo_defs CustomerRepository_get_by_id_def atomic_def
      create_order_block_def create_order_prepare_def get_by_ids_for_update_def
      product_map_of_def ProductRepository_to_entity_def has_sufficient_stock_def
      deduct_stock_def update_stock_def new_order_item_def validate_def Let_def)

section \<open>A request that passes every check\<close>

text \<open>
  C3. The claim is that a request with an active customer, a non-empty item list and
  products that exist, are active and have the stock succeeds, leaves each stock at its
  quantity before the call minus the total requested, and creates an order whose total
  is the sum of quantity times unit price. In the code, for every such request (with
  positive quantities and prices and a customer id other than zero, which
  \<open>validate\<close> demands), the transaction block does write these stocks
  (\<open>deducted\<close>) and does build an order with that total, but the repository's
  \<open>create\<close> then raises TypeError: the transaction is rolled back, the call returns
  the error, every stock is as before the call and no order exists.
\<close>

theorem create_order_valid_request_raises:
  assumes found: "CustomerRepository_get_by_id (customer_id data) d = Some customer"
    and customer: "c_is_active customer"
    and nonempty: "items data \<noteq> []"
    and cid: "customer_id data \<noteq> 0"
    and ok: "\<forall>it \<in> set (items data). 0 < quantity it \<and>
               (\<exists>model. products d (product_id it) = Some model \<and> deleted_at model = None \<and>
                   is_active model \<and> 0 < price model \<and>
                   requested (items data) (product_id it) \<le> stock_quantity model)"
  shows "create_order number data d = (Inl (TypeError ''order_number''), d) \<and>
         (\<exists>entity.
            create_order_prepare customer data d = (Inr entity, deducted (items data) d) \<and>
            total entity =
              sum_list (map (\<lambda>it. quantity it * unit_price_of d (product_id it)) (items data)))"
proof -
  from create_order_prepare_reserves [OF found customer nonempty cid ok, of number]
  obtain entity where
    prep: "create_order_prepare customer data d = (Inr entity, deducted (items data) d)"
    and call: "create_order number data d =
             (case OrderRepository_create number entity (deducted (items data) d) of
                (Inl e, d') \<Rightarrow> (Inl e, d)
              | (Inr None, d') \<Rightarrow> (Inl AttributeError, d')
              | (Inr (Some order), d') \<Rightarrow> (Inr order, d'))"
    and ent: "o_customer_id entity = customer_id data"
    and tot: "total entity =
             sum_list (map (\<lambda>it. quantity it * unit_price_of d (product_id it)) (items data))"
    by blast
  from found obtain row where "customers d (customer_id data) = Some row"
    by (auto simp: CustomerRepository_get_by_id_def split: option.splits)
  with ent have "fst (OrderRepository_create number entity (deducted (items data) d)) =
      Inl (TypeError ''order_number'')"
    by (simp add: OrderRepository_create_fst)
  with call have "create_order number data d = (Inl (TypeError ''order_number''), d)"
    by (cases "OrderRepository_create number entity (deducted (items data) d)") simp
  with prep tot show ?thesis by blast
qed

theorem create_order_valid_request_raises_witness:
  "create_order ''PED-0001'' (demo_order [(1, 5), (2, 10), (1, 3)]) demo_db =
     (Inl (TypeError ''order_number''), demo_db) \<and>
   map (\<lambda>pid. map_option stock_quantity (products demo_db pid)) [1, 2, 3] =
     [Some 20, Some 30, Some 2] \<and>
   (\<exists>entity. create_order_prepare demo_customer (demo_order [(1, 5), (2, 10), (1, 3)]) demo_db =
       (Inr entity, deducted (items (demo_order [(1, 5), (2, 10), (1, 3)])) demo_db) \<and>
     total entity = 180000) \<and>
   map (\<lambda>pid. map_option stock_quantity
          (products (deducted (items (demo_order [(1, 5), (2, 10), (1, 3)])) demo_db) pid))
     [1, 2, 3] = [Some 12, Some 20, Some 2]"
proof -
  let ?data = "demo_order [(1, 5), (2, 10), (1, 3)]"
  have found: "CustomerRepository_get_by_id (customer_id ?data) demo_db = Some demo_customer"
    by (simp add: CustomerRepository_get_by_id_def demo_defs)
  have active: "c_is_active demo_customer" by (simp add: demo_defs)
  have nonempty: "items ?data \<noteq> []" by (simp add: demo_defs)
  have cid: "customer_id ?data \<noteq> 0" by (simp add: demo_defs)
  have ok: "\<forall>it \<in> set (items ?data). 0 < quantity it \<and>
               (\<exists>model. products demo_db (product_id it) = Some model \<and> deleted_at model = None \<and>
                   is_active model \<and> 0 < price model \<and>
                   requested (items ?data) (product_id it) \<le> stock_quantity model)"
    by (simp add: demo_defs)
  from create_order_valid_request_raises [OF found active nonempty cid ok, of "''PED-0001''"]
  obtain entity where
    "create_order ''PED-0001'' ?data demo_db = (Inl (TypeError ''order_number''), demo_db)"
    "create_order_prepare demo_customer ?data demo_db = (Inr entity, deducted (items ?data) demo_db)"
    "total entity =
       sum_list (map (\<lambda>it. quantity it * unit_price_of demo_db (product_id it)) (items ?data))"
    by blast
  moreover have "sum_list (map (\<lambda>it. quantity it * unit_price_of demo_db (product_id it))
      (items ?data)) = 180000"
    by (simp add: demo_defs unit_price_of_def)
  moreover have "map (\<lambda>pid. map_option stock_quantity
          (products (deducted (items ?data) demo_db) pid)) [1, 2, 3] = [Some 12, Some 20, Some 2]"
    by (simp add: demo_defs deducted_def)
  moreover have "map (\<lambda>pid. map_option stock_quantity (products demo_db pid)) [1, 2, 3] =
     [Some 20, Some 30, Some 2]"
    by (simp add: demo_defs)
  ultimately show ?thesis by auto
qed

section \<open>The order in which the items are validated\<close>

text \<open>
  C7, as amended. \<open>create_order\<close> validates in two passes over the items, each in the
  caller's order. The first pass checks existence only: the call raises
  \<open>EntityNotFoundException\<close> for the first item whose product is missing or
  soft-deleted, whatever the other checks would say of the items before it. Only when
  every product exists does the second pass check each item, first that its product is
  active (else \<open>BusinessRuleViolation\<close>), then that the stock left after the
  deductions for the items before it covers the quantity (else
  \<open>InsufficientStockException\<close> carrying the SKU, the requested quantity and that
  remaining stock); the error raised is the one of the first item that fails in this
  pass. In each case the database is returned unchanged.
\<close>

theorem create_order_validation_order:
  assumes found: "CustomerRepository_get_by_id (customer_id data) d = Some customer"
    and active: "c_is_active customer"
    and split: "items data = pre @ it # post"
  shows
    "((\<forall>j \<in> set pre. is_live d (product_id j)) \<and> \<not> is_live d (product_id it) \<longrightarrow>
        create_order number data d =
          (Inl (EntityNotFoundException ''Produto'' (product_id it)), d)) \<and>
     ((\<forall>j \<in> set (items data). is_live d (product_id j)) \<and> in_turn d pre \<longrightarrow>
        (\<forall>model. products d (product_id it) = Some model \<longrightarrow>
           (\<not> is_active model \<longrightarrow>
              create_order number data d =
                (Inl (BusinessRuleViolation (ProductInactive (sku model))), d)) \<and>
           (is_active model \<and>
            stock_quantity model - requested pre (product_id it) < quantity it \<longrightarrow>
              create_order number data d =
                (Inl (InsufficientStockException (sku model) (quantity it)
                        (stock_quantity model - requested pre (product_id it))), d))))"
proof -
  let ?its = "items data"
  let ?pm = "product_map_of (get_by_ids_for_update (map product_id ?its) d)"
  have nonempty: "?its \<noteq> []" using split by simp
  have mem: "it \<in> set ?its" and sub: "set pre \<subseteq> set ?its" using split by auto
  have first: "create_order number data d =
      (Inl (EntityNotFoundException ''Produto'' (product_id it)), d)"
    if pre: "\<forall>j \<in> set pre. is_live d (product_id j)" and it: "\<not> is_live d (product_id it)"
  proof -
    have "\<forall>j \<in> set pre. ?pm (product_id j) \<noteq> None"
      using pre sub locked_live [of _ ?its d] by blast
    moreover have "?pm (product_id it) = None"
      using it locked_live [OF mem, of d] by simp
    ultimately have "check_products_exist ?pm ?its =
        Some (EntityNotFoundException ''Produto'' (product_id it))"
      unfolding split [symmetric, THEN arg_cong [of _ _ "check_products_exist ?pm"]]
      using check_products_exist_first [of pre ?pm it post] split by simp
    then have "fst (create_order_prepare customer data d) =
        Inl (EntityNotFoundException ''Produto'' (product_id it))"
      by (simp add: create_order_prepare_def Let_def)
    with found active nonempty show ?thesis by (rule create_order_raises)
  qed
  have second: "create_order number data d =
      (Inl (if \<not> is_active model then BusinessRuleViolation (ProductInactive (sku model))
            else InsufficientStockException (sku model) (quantity it)
                   (stock_quantity model - requested pre (product_id it))), d)"
    if live: "\<forall>j \<in> set ?its. is_live d (product_id j)" and pre: "in_turn d pre"
      and m: "products d (product_id it) = Some model"
      and bad: "\<not> is_active model \<or>
                stock_quantity model - requested pre (product_id it) < quantity it"
    for model
  proof -
    have "\<forall>j \<in> set ?its. ?pm (product_id j) \<noteq> None"
      using live locked_live [of _ ?its d] by blast
    then have exist: "check_products_exist ?pm ?its = None"
      by (rule check_products_exist_all)
    have pass: "passes ?pm pre" using pre sub by (rule passes_in_turn)
    from live mem m have "deleted_at model = None" by (auto simp: is_live_def)
    with mem m have look: "?pm (product_id it) =
        Some (ProductRepository_to_entity (product_id it) model)"
      by (rule locked_item)
    let ?p = "ProductRepository_to_entity (product_id it) model"
    have bad': "\<not> p_is_active ?p \<or>
        p_stock_quantity ?p - requested pre (product_id it) < quantity it"
      using bad by (simp add: ProductRepository_to_entity_def)
    from reserve_items_first_failure [OF pass look bad', of post d]
    have "fst (reserve_items ?pm ?its d) =
       Inl (if \<not> is_active model then BusinessRuleViolation (ProductInactive (sku model))
            else InsufficientStockException (sku model) (quantity it)
                   (stock_quantity model - requested pre (product_id it)))"
      unfolding split by (simp add: ProductRepository_to_entity_def)
    then have "fst (create_order_prepare customer data d) =
       Inl (if \<not> is_active model then BusinessRuleViolation (ProductInactive (sku model))
            else InsufficientStockException (sku model) (quantity it)
                   (stock_quantity model - requested pre (product_id it)))"
      using exist
      by (cases "reserve_items ?pm ?its d") (simp add: create_order_prepare_def Let_def)
    with found active nonempty show ?thesis by (rule create_order_raises)
  qed
  show ?thesis
    using first second by (auto split: if_splits)
qed

theorem create_order_validation_order_witness:
  "create_order ''PED-0001'' (demo_order [(1, 15), (4, 1), (1, 6)]) demo_db =
     (Inl (BusinessRuleViolation (ProductInactive ''D'')), demo_db) \<and>
   create_order ''PED-0001'' (demo_order [(1, 15), (1, 6), (4, 1)]) demo_db =
     (Inl (InsufficientStockException ''A'' 6 5), demo_db) \<and>
   create_order ''PED-0001'' (demo_order [(1, 15), (9, 1), (4, 1)]) demo_db =
     (Inl (EntityNotFoundException ''Produto'' 9), demo_db)"
proof -
  have found: "\<And>ls. CustomerRepository_get_by_id (customer_id (demo_order ls)) demo_db =
      Some demo_customer"
    by (simp add: CustomerRepository_get_by_id_def demo_defs)
  have active: "c_is_active demo_customer" by (simp add: demo_defs)
  have one: "in_turn demo_db [\<lparr>product_id = 1, quantity = 15\<rparr>]"
    by (simp add: in_turn_def demo_defs)
  have "items (demo_order [(1, 15), (4, 1), (1, 6)]) =
      [\<lparr>product_id = 1, quantity = 15\<rparr>] @ \<lparr>product_id = 4, quantity = 1\<rparr> #
      [\<lparr>product_id = 1, quantity = 6\<rparr>]"
    by (simp add: demo_defs)
  from create_order_validation_order [OF found active this, of "''PED-0001''"] one
  have a: "create_order ''PED-0001'' (demo_order [(1, 15), (4, 1), (1, 6)]) demo_db =
     (Inl (BusinessRuleViolation (ProductInactive ''D'')), demo_db)"
    by (simp add: demo_defs is_live_def)
  have two: "items (demo_order [(1, 15), (1, 6), (4, 1)]) =
      [\<lparr>product_id = 1, quantity = 15\<rparr>] @ \<lparr>product_id = 1, quantity = 6\<rparr> #
      [\<lparr>product_id = 4, quantity = 1\<rparr>]"
    by (simp add: demo_defs)
  from create_order_validation_order [OF found active two, of "''PED-0001''"] one
  have b: "create_order ''PED-0001'' (demo_order [(1, 15), (1, 6), (4, 1)]) demo_db =
     (Inl (InsufficientStockException ''A'' 6 5), demo_db)"
    by (simp add: demo_defs is_live_def)
  have three: "items (demo_order [(1, 15), (9, 1), (4, 1)]) =
      [\<lparr>product_id = 1, quantity = 15\<rparr>] @ \<lparr>product_id = 9, quantity = 1\<rparr> #
      [\<lparr>product_id = 4, quantity = 1\<rparr>]"
    by (simp add: demo_defs)
  from create_order_validation_order [OF found active three, of "''PED-0001''"]
  have c: "create_order ''PED-0001'' (demo_order [(1, 15), (9, 1), (4, 1)]) demo_db =
     (Inl (EntityNotFoundException ''Produto'' 9), demo_db)"
    by (simp add: demo_defs is_live_def)
  from a b c show ?thesis by simp
qed

text \<open>
  The claim as stated fails when an inactive product comes before a missing one: the
  first failing item in caller order is the inactive one, yet the error is the missing
  product's.
\<close>

theorem create_order_missing_after_inactive_counterexample:
  "items (demo_order [(4, 1), (9, 1)]) =
     [\<lparr>product_id = 4, quantity = 1\<rparr>, \<lparr>product_id = 9, quantity = 1\<rparr>] \<and>
   products demo_db 4 = Some (demo_product ''D'' 10000 10 False None) \<and>
   products demo_db 9 = None \<and>
   create_order ''PED-0001'' (demo_order [(4, 1), (9, 1)]) demo_db =
     (Inl (EntityNotFoundException ''Produto'' 9), demo_db)"
  by (simp add: create_order_def demo_defs CustomerRepository_get_by_id_def atomic_def
      create_order_block_def create_order_prepare_def get_by_ids_for_update_def
      product_map_of_def ProductRepository_to_entity_def Let_def)

section \<open>What create returns\<close>

text \<open>
  C6. The claim is that a successful \<open>create_order\<close> returns the created order with
  its items and total, that is, that the repository's \<open>create\<close> followed by
  \<open>get_by_id\<close> yields the stored order as an entity. In the code \<open>create\<close> never
  does: once the rows are written, reading the order back raises TypeError for the
  keyword \<open>order_number\<close> (or finds nothing, when the customer row is absent).
\<close>

theorem OrderRepository_create_raises:
  "fst (OrderRepository_create number entity d) =
     (case customers d (o_customer_id entity) of
        None \<Rightarrow> Inr None
      | Some customer \<Rightarrow> Inl (TypeError ''order_number''))"
  by (simp add: OrderRepository_create_def OrderRepository_get_by_id_def
      OrderRepository_to_entity_raises Let_def split: option.splits)

section \<open>Creating, then cancelling\<close>

text \<open>
  C4. The claim is that cancelling an order right after creating it restores every stock
  quantity. In the code neither step gets that far: creating an order of five units of
  product 1 raises TypeError and is rolled back, and cancelling a stored pending order
  raises the same TypeError when the order is loaded, before any stock is restored
  (product 1 stays at 15). The two loops themselves do undo each other
  (\<open>cancel_order_block_undoes_prepare\<close>).
\<close>

theorem create_then_cancel_raises:
  "create_order ''PED-0001'' (demo_order [(1, 5)]) demo_db =
     (Inl (TypeError ''order_number''), demo_db) \<and>
   cancel_order 1 ''Desistencia'' (demo_db_with_order ''pending'') =
     (Inl (TypeError ''order_number''), demo_db_with_order ''pending'') \<and>
   map_option stock_quantity (products (demo_db_with_order ''pending'') 1) = Some 15"
proof -
  have "create_order ''PED-0001'' (demo_order [(1, 5)]) demo_db =
     (Inl (TypeError ''order_number''), demo_db)"
    by (simp add: create_order_def demo_defs CustomerRepository_get_by_id_def atomic_def
        create_order_block_def create_order_prepare_def get_by_ids_for_update_def
        product_map_of_def ProductRepository_to_entity_def has_sufficient_stock_def
        deduct_stock_def update_stock_def new_order_item_def validate_def
        OrderRepository_create_def OrderRepository_get_by_id_def
        OrderRepository_to_entity_raises OrderStatus_of_value_def Let_def)
  moreover have "get_order 1 (demo_db_with_order ''pending'') = Inl (TypeError ''order_number'')"
    by (simp add: get_order_def OrderRepository_get_by_id_def OrderRepository_to_entity_raises
        demo_db_with_order_def demo_defs OrderStatus_of_value_def)
  then have "cancel_order 1 ''Desistencia'' (demo_db_with_order ''pending'') =
     (Inl (TypeError ''order_number''), demo_db_with_order ''pending'')"
    by (simp add: cancel_order_def)
  moreover have "map_option stock_quantity (products (demo_db_with_order ''pending'') 1) = Some 15"
    by (simp add: demo_db_with_order_def demo_defs)
  ultimately show ?thesis by simp
qed

section \<open>Cancelling an order that can no longer be cancelled\<close>

text \<open>
  C8. The claim is that cancelling a separated, shipped, delivered or cancelled order
  fails with \<open>InvalidStateTransitionException\<close> and changes nothing. In the code the
  call changes nothing, but the error is the TypeError raised while the order is
  loaded; the state machine, which would reject shipped to cancelled, is never reached.
\<close>

theorem cancel_shipped_order_raises_TypeError:
  "cancel_order 1 [] (demo_db_with_order ''shipped'') =
     (Inl (TypeError ''order_number''), demo_db_with_order ''shipped'') \<and>
   transition_to
     \<lparr>o_id = Some 1, o_customer_id = 1, o_customer_name = ''Ana'', o_status = SHIPPED,
      o_items = [], o_notes = [], o_deleted_at = None\<rparr> CANCELLED =
     Inl (InvalidStateTransitionException ''shipped'' ''cancelled'')"
proof -
  have "get_order 1 (demo_db_with_order ''shipped'') = Inl (TypeError ''order_number'')"
    by (simp add: get_order_def OrderRepository_get_by_id_def OrderRepository_to_entity_raises
        demo_db_with_order_def demo_defs OrderStatus_of_value_def)
  then have "cancel_order 1 [] (demo_db_with_order ''shipped'') =
     (Inl (TypeError ''order_number''), demo_db_with_order ''shipped'')"
    by (simp add: cancel_order_def)
  then show ?thesis
    by (simp add: transition_to_def can_transition_to_def)
qed

section \<open>The three branches of the idempotency middleware\<close>

text \<open>
  C5, as amended. For every POST request: if it carries no idempotency key (or an empty
  one), the operation runs directly and the cache is left alone; if the cache holds an
  unexpired entry for the key, that entry's status code and payload are returned
  verbatim and the operation is not invoked; otherwise the operation is invoked, and
  when its response has a 2xx status and a body that \<^verbatim>\<open>json.loads\<close> decodes, the
  decoded body and the status are stored under the key for 24 hours before the response
  is returned. A response with another status, or a 2xx response on whose body
  \<^verbatim>\<open>json.loads\<close> raises JSONDecodeError, is returned without being stored.

  The last conjunct of the theorem records the one path this leaves out: when
  \<^verbatim>\<open>json.loads\<close> raises an exception the \<^verbatim>\<open>except\<close> clause does not
  catch, that exception leaves the middleware after the operation has run, and nothing
  is stored.
\<close>

theorem IdempotencyMiddleware_branches:
  assumes post: "http_method req = ''POST''"
  shows
    "(idempotency_key req = None \<or> idempotency_key req = Some [] \<longrightarrow>
        IdempotencyMiddleware_call get_response loads dumps t_get t_set req (c, w) =
          (Inr (fst (get_response req w)), c, snd (get_response req w))) \<and>
     (\<forall>k cached_response. idempotency_key req = Some k \<and> k \<noteq> [] \<and>
        cache_get t_get c (''idempotency:'' @ k) = Some cached_response \<longrightarrow>
        IdempotencyMiddleware_call get_response loads dumps t_get t_set req (c, w) =
          (Inr \<lparr>status_code = cached_status cached_response,
                content = dumps (cached_data cached_response)\<rparr>, c, w)) \<and>
     (\<forall>k resp w'. idempotency_key req = Some k \<and> k \<noteq> [] \<and>
        cache_get t_get c (''idempotency:'' @ k) = None \<and> get_response req w = (resp, w') \<longrightarrow>
        (\<forall>response_data. 200 \<le> status_code resp \<and> status_code resp < 300 \<and>
           loads (content resp) = Loaded response_data \<longrightarrow>
           IdempotencyMiddleware_call get_response loads dumps t_get t_set req (c, w) =
             (Inr resp,
              c(''idempotency:'' @ k \<mapsto>
                  (\<lparr>cached_data = response_data, cached_status = status_code resp\<rparr>,
                   t_set + 24 * 60 * 60)),
              w')) \<and>
        (\<not> (200 \<le> status_code resp \<and> status_code resp < 300) \<or>
           loads (content resp) = JSONDecodeError \<longrightarrow>
           IdempotencyMiddleware_call get_response loads dumps t_get t_set req (c, w) =
             (Inr resp, c, w')) \<and>
        (\<forall>exn. 200 \<le> status_code resp \<and> status_code resp < 300 \<and>
           loads (content resp) = Unhandled exn \<longrightarrow>
           IdempotencyMiddleware_call get_response loads dumps t_get t_set req (c, w) =
             (Inl exn, c, w')))"
proof (intro conjI allI impI)
  assume "idempotency_key req = None \<or> idempotency_key req = Some []"
  with post show "IdempotencyMiddleware_call get_response loads dumps t_get t_set req (c, w) =
      (Inr (fst (get_response req w)), c, snd (get_response req w))"
    by (auto simp: IdempotencyMiddleware_call_def split: prod.splits)
next
  fix k cached_response
  assume "idempotency_key req = Some k \<and> k \<noteq> [] \<and>
      cache_get t_get c (''idempotency:'' @ k) = Some cached_response"
  with post show "IdempotencyMiddleware_call get_response loads dumps t_get t_set req (c, w) =
      (Inr \<lparr>status_code = cached_status cached_response,
            content = dumps (cached_data cached_response)\<rparr>, c, w)"
    by (simp add: IdempotencyMiddleware_call_def)
next
  fix k resp w' response_data
  assume "idempotency_key req = Some k \<and> k \<noteq> [] \<and>
      cache_get t_get c (''idempotency:'' @ k) = None \<and> get_response req w = (resp, w')"
    and "200 \<le> status_code resp \<and> status_code resp < 300 \<and>
      loads (content resp) = Loaded response_data"
  with post show "IdempotencyMiddleware_call get_response loads dumps t_get t_set req (c, w) =
      (Inr resp,
       c(''idempotency:'' @ k \<mapsto>
           (\<lparr>cached_data = response_data, cached_status = status_code resp\<rparr>,
            t_set + 24 * 60 * 60)),
       w')"
    by (simp add: IdempotencyMiddleware_call_def cache_set_def IDEMPOTENCY_KEY_TTL_def)
next
  fix k resp w'
  assume "idempotency_key req = Some k \<and> k \<noteq> [] \<and>
      cache_get t_get c (''idempotency:'' @ k) = None \<and> get_response req w = (resp, w')"
    and "\<not> (200 \<le> status_code resp \<and> status_code resp < 300) \<or>
      loads (content resp) = JSONDecodeError"
  with post show "IdempotencyMiddleware_call get_response loads dumps t_get t_set req (c, w) =
      (Inr resp, c, w')"
    by (auto simp: IdempotencyMiddleware_call_def)
next
  fix k resp w' exn
  assume "idempotency_key req = Some k \<and> k \<noteq> [] \<and>
      cache_get t_get c (''idempotency:'' @ k) = None \<and> get_response req w = (resp, w')"
    and "200 \<le> status_code resp \<and> status_code resp < 300 \<and>
      loads (content resp) = Unhandled exn"
  with post show "IdempotencyMiddleware_call get_response loads dumps t_get t_set req (c, w) =
      (Inl exn, c, w')"
    by (simp add: IdempotencyMiddleware_call_def)
qed

theorem IdempotencyMiddleware_branches_witness:
  "IdempotencyMiddleware_call demo_get_response demo_loads demo_dumps 100 101
     \<lparr>http_method = ''POST'', path = ''/api/v1/orders/'', idempotency_key = None\<rparr>
     (demo_cache, 0) =
     (Inr \<lparr>status_code = 201, content = ''[1]''\<rparr>, demo_cache, 1) \<and>
   IdempotencyMiddleware_call demo_get_response demo_loads demo_dumps 100 101
     \<lparr>http_method = ''POST'', path = ''/api/v1/orders/'', idempotency_key = Some ''k1''\<rparr>
     (demo_cache, 0) =
     (Inr \<lparr>status_code = 201, content = ''[1]''\<rparr>, demo_cache, 0) \<and>
   IdempotencyMiddleware_call demo_get_response demo_loads demo_dumps 100 101
     \<lparr>http_method = ''POST'', path = ''/api/v1/orders/'', idempotency_key = Some ''k2''\<rparr>
     (demo_cache, 0) =
     (Inr \<lparr>status_code = 201, content = ''[1]''\<rparr>,
      demo_cache(''idempotency:k2'' \<mapsto>
        (\<lparr>cached_data = ''[1]'', cached_status = 201\<rparr>, 86501)),
      1) \<and>
   IdempotencyMiddleware_call demo_get_response demo_loads demo_dumps 100 101
     \<lparr>http_method = ''POST'', path = ''/export/'', idempotency_key = Some ''k2''\<rparr>
     (demo_cache, 0) =
     (Inl ''UnicodeDecodeError'', demo_cache, 1)"
proof -
  let ?req = "\<lambda>key. \<lparr>http_method = ''POST'', path = ''/api/v1/orders/'', idempotency_key = key\<rparr>"
  let ?export = "\<lparr>http_method = ''POST'', path = ''/export/'', idempotency_key = Some ''k2''\<rparr>"
  have post: "\<And>key. http_method (?req key) = ''POST''" by simp
  note branches = IdempotencyMiddleware_branches [OF post, where get_response = demo_get_response
      and loads = demo_loads and dumps = demo_dumps and t_get = 100 and t_set = 101
      and c = demo_cache and w = 0]
  have a: "IdempotencyMiddleware_call demo_get_response demo_loads demo_dumps 100 101
      (?req None) (demo_cache, 0) = (Inr \<lparr>status_code = 201, content = ''[1]''\<rparr>, demo_cache, 1)"
    using branches [of None] by (simp add: demo_get_response_def)
  have hit: "cache_get 100 demo_cache (''idempotency:'' @ ''k1'') =
      Some \<lparr>cached_data = ''[1]'', cached_status = 201\<rparr>"
    by (simp add: cache_get_def demo_cache_def)
  have b: "IdempotencyMiddleware_call demo_get_response demo_loads demo_dumps 100 101
      (?req (Some ''k1'')) (demo_cache, 0) =
      (Inr \<lparr>status_code = 201, content = ''[1]''\<rparr>, demo_cache, 0)"
    using branches [of "Some ''k1''"] hit by (simp add: demo_dumps_def)
  have miss: "cache_get 100 demo_cache (''idempotency:'' @ ''k2'') = None"
    by (simp add: cache_get_def demo_cache_def)
  have run: "demo_get_response (?req (Some ''k2'')) 0 = (\<lparr>status_code = 201, content = ''[1]''\<rparr>, 1)"
    by (simp add: demo_get_response_def)
  have c: "IdempotencyMiddleware_call demo_get_response demo_loads demo_dumps 100 101
      (?req (Some ''k2'')) (demo_cache, 0) =
     (Inr \<lparr>status_code = 201, content = ''[1]''\<rparr>,
      demo_cache(''idempotency:k2'' \<mapsto>
        (\<lparr>cached_data = ''[1]'', cached_status = 201\<rparr>, 86501)),
      1)"
    using branches [of "Some ''k2''"] miss run by (simp add: demo_loads_def)
  have post': "http_method ?export = ''POST''" by simp
  have run': "demo_get_response ?export 0 = (\<lparr>status_code = 200, content = [CHR 0xFF]\<rparr>, 1)"
    by (simp add: demo_get_response_def)
  have d: "IdempotencyMiddleware_call demo_get_response demo_loads demo_dumps 100 101
      ?export (demo_cache, 0) = (Inl ''UnicodeDecodeError'', demo_cache, 1)"
    using IdempotencyMiddleware_branches [OF post', where get_response = demo_get_response
      and loads = demo_loads and dumps = demo_dumps and t_get = 100 and t_set = 101
      and c = demo_cache and w = 0] miss run'
    by (simp add: demo_loads_def)
  from a b c d show ?thesis by blast
qed

text \<open>
  The claim as stated fails on an operation that succeeds with an empty body: nothing is
  stored, and a retry with the same key invokes the operation again.
\<close>

theorem IdempotencyMiddleware_empty_body_counterexample:
  "IdempotencyMiddleware_call demo_get_response demo_loads demo_dumps 100 101
     \<lparr>http_method = ''POST'', path = ''/ping/'',
      idempotency_key = Some ''k2''\<rparr>
     (demo_cache, 0) =
     (Inr \<lparr>status_code = 204, content = []\<rparr>, demo_cache, 1) \<and>
   IdempotencyMiddleware_call demo_get_response demo_loads demo_dumps 102 103
     \<lparr>http_method = ''POST'', path = ''/ping/'',
      idempotency_key = Some ''k2''\<rparr>
     (demo_cache, 1) =
     (Inr \<lparr>status_code = 204, content = []\<rparr>, demo_cache, 2)"
  by (simp add: IdempotencyMiddleware_call_def cache_get_def demo_http_defs)

section \<open>The middleware deduplicates POST only\<close>

text \<open>
  C10, as amended. The middleware deduplicates POST requests only: for a request of any
  other method, with or without an idempotency key, the operation is invoked directly
  and the cache is neither read nor written.
\<close>

theorem IdempotencyMiddleware_only_POST:
  assumes "http_method req \<noteq> ''POST''"
  shows "IdempotencyMiddleware_call get_response loads dumps t_get t_set req (c, w) =
           (Inr (fst (get_response req w)), c, snd (get_response req w))"
  using assms by (simp add: IdempotencyMiddleware_call_def split: prod.splits)

theorem IdempotencyMiddleware_only_POST_witness:
  "IdempotencyMiddleware_call demo_get_response demo_loads demo_dumps 100 101
     \<lparr>http_method = ''DELETE'', path = ''/api/v1/orders/1/'', idempotency_key = Some ''k1''\<rparr>
     (demo_cache, 0) =
     (Inr \<lparr>status_code = 204, content = []\<rparr>, demo_cache, 1)"
proof -
  have "http_method \<lparr>http_method = ''DELETE'', path = ''/api/v1/orders/1/'',
      idempotency_key = Some ''k1''\<rparr> \<noteq> ''POST''"
    by simp
  from IdempotencyMiddleware_only_POST [OF this, of demo_get_response demo_loads demo_dumps
      100 101 demo_cache 0]
  show ?thesis by (simp add: demo_get_response_def)
qed

text \<open>
  The claim as stated fails on a PATCH that carries a key with an unexpired cached
  result: the operation is invoked and its own response is returned.
\<close>

theorem IdempotencyMiddleware_PATCH_counterexample:
  "cache_get 100 demo_cache ''idempotency:k1'' =
     Some \<lparr>cached_data = ''[1]'', cached_status = 201\<rparr> \<and>
   IdempotencyMiddleware_call demo_get_response demo_loads demo_dumps 100 101
     \<lparr>http_method = ''PATCH'', path = ''/api/v1/orders/1/status/'',
      idempotency_key = Some ''k1''\<rparr>
     (demo_cache, 0) =
     (Inr \<lparr>status_code = 204, content = []\<rparr>, demo_cache, 1)"
  by (simp add: IdempotencyMiddleware_call_def cache_get_def demo_http_defs)

end
